theory Spec2Isabelle
  imports Main "HOL-Library.AList"
begin

section \<open>Configuration types (src/types/config.ts)\<close>

text \<open>
  The TypeScript string-literal unions become datatypes; the function beside each one gives
  the string literal the source writes for the constructor, which is what a template
  literal such as \<^verbatim>\<open>${config.packageManager}\<close> prints.
\<close>

datatype Framework = Next | React | Vue | Astro

datatype BackendFramework =
  BNone | NextjsBuiltin | Express | Fastify | Nestjs | Hono | Elysia | BConvex

datatype Database =
  Supabase | DConvex | Neon | Sqlite | Turso | Planetscale | Mongodb | DNone

datatype ORM = Prisma | Drizzle | ONone

datatype HonoRuntime = RNode | RBun

datatype Auth = NextAuth | Clerk | SupabaseAuth | BetterAuth | ANone

datatype Styling = Tailwind | TailwindShadcn | CssModules | Vanilla

datatype PackageManager = Npm | Pnpm | Bun

fun Framework_str :: "Framework \<Rightarrow> string" where
  "Framework_str Next = ''next''"
| "Framework_str React = ''react''"
| "Framework_str Vue = ''vue''"
| "Framework_str Astro = ''astro''"

fun BackendFramework_str :: "BackendFramework \<Rightarrow> string" where
  "BackendFramework_str BNone = ''none''"
| "BackendFramework_str NextjsBuiltin = ''nextjs-builtin''"
| "BackendFramework_str Express = ''express''"
| "BackendFramework_str Fastify = ''fastify''"
| "BackendFramework_str Nestjs = ''nestjs''"
| "BackendFramework_str Hono = ''hono''"
| "BackendFramework_str Elysia = ''elysia''"
| "BackendFramework_str BConvex = ''convex''"

fun Database_str :: "Database \<Rightarrow> string" where
  "Database_str Supabase = ''supabase''"
| "Database_str DConvex = ''convex''"
| "Database_str Neon = ''neon''"
| "Database_str Sqlite = ''sqlite''"
| "Database_str Turso = ''turso''"
| "Database_str Planetscale = ''planetscale''"
| "Database_str Mongodb = ''mongodb''"
| "Database_str DNone = ''none''"

fun ORM_str :: "ORM \<Rightarrow> string" where
  "ORM_str Prisma = ''prisma''"
| "ORM_str Drizzle = ''drizzle''"
| "ORM_str ONone = ''none''"

fun HonoRuntime_str :: "HonoRuntime \<Rightarrow> string" where
  "HonoRuntime_str RNode = ''node''"
| "HonoRuntime_str RBun = ''bun''"

fun Auth_str :: "Auth \<Rightarrow> string" where
  "Auth_str NextAuth = ''next-auth''"
| "Auth_str Clerk = ''clerk''"
| "Auth_str SupabaseAuth = ''supabase-auth''"
| "Auth_str BetterAuth = ''better-auth''"
| "Auth_str ANone = ''none''"

fun Styling_str :: "Styling \<Rightarrow> string" where
  "Styling_str Tailwind = ''tailwind''"
| "Styling_str TailwindShadcn = ''tailwind-shadcn''"
| "Styling_str CssModules = ''css-modules''"
| "Styling_str Vanilla = ''vanilla''"

fun PackageManager_str :: "PackageManager \<Rightarrow> string" where
  "PackageManager_str Npm = ''npm''"
| "PackageManager_str Pnpm = ''pnpm''"
| "PackageManager_str Bun = ''bun''"

record Extras =
  typescript :: bool
  eslint :: bool
  prettier :: bool
  testing :: bool
  playwright :: bool
  docker :: bool

text \<open>The optional field \<^verbatim>\<open>runtime?: HonoRuntime\<close> is an option value.\<close>

record ProjectConfig =
  projectName :: string
  framework :: Framework
  backend :: BackendFramework
  database :: Database
  orm :: ORM
  auth :: Auth
  styling :: Styling
  packageManager :: PackageManager
  runtime :: "HonoRuntime option"
  extras :: Extras

subsection \<open>Compatibility tables\<close>

fun FRAMEWORK_AUTH_COMPAT :: "Framework \<Rightarrow> Auth list" where
  "FRAMEWORK_AUTH_COMPAT Next = [NextAuth, Clerk, SupabaseAuth, BetterAuth, ANone]"
| "FRAMEWORK_AUTH_COMPAT React = [Clerk, SupabaseAuth, BetterAuth, ANone]"
| "FRAMEWORK_AUTH_COMPAT Vue = [Clerk, SupabaseAuth, BetterAuth, ANone]"
| "FRAMEWORK_AUTH_COMPAT Astro = [Clerk, SupabaseAuth, BetterAuth, ANone]"

fun FRAMEWORK_DB_COMPAT :: "Framework \<Rightarrow> Database list" where
  "FRAMEWORK_DB_COMPAT Next =
     [Supabase, DConvex, Neon, Sqlite, Turso, Planetscale, Mongodb, DNone]"
| "FRAMEWORK_DB_COMPAT React =
     [Supabase, DConvex, Neon, Sqlite, Turso, Planetscale, Mongodb, DNone]"
| "FRAMEWORK_DB_COMPAT Vue = [Supabase, Neon, Sqlite, Turso, Planetscale, Mongodb, DNone]"
| "FRAMEWORK_DB_COMPAT Astro = [Supabase, Neon, Sqlite, Turso, Planetscale, Mongodb, DNone]"

fun FRAMEWORK_BACKEND_COMPAT :: "Framework \<Rightarrow> BackendFramework list" where
  "FRAMEWORK_BACKEND_COMPAT Next =
     [BNone, NextjsBuiltin, Express, Fastify, Nestjs, Hono, Elysia, BConvex]"
| "FRAMEWORK_BACKEND_COMPAT React = [BNone, Express, Fastify, Nestjs, Hono, Elysia, BConvex]"
| "FRAMEWORK_BACKEND_COMPAT Vue = [BNone, Express, Fastify, Nestjs, Hono, Elysia]"
| "FRAMEWORK_BACKEND_COMPAT Astro = [BNone, Express, Fastify, Nestjs, Hono, Elysia]"

fun DATABASE_ORM_COMPAT :: "Database \<Rightarrow> ORM list" where
  "DATABASE_ORM_COMPAT Mongodb = [Prisma]"
| "DATABASE_ORM_COMPAT Supabase = [Prisma, Drizzle]"
| "DATABASE_ORM_COMPAT Neon = [Prisma, Drizzle]"
| "DATABASE_ORM_COMPAT Sqlite = [Prisma, Drizzle]"
| "DATABASE_ORM_COMPAT Turso = [Prisma, Drizzle]"
| "DATABASE_ORM_COMPAT Planetscale = [Prisma, Drizzle]"
| "DATABASE_ORM_COMPAT DConvex = [ONone]"
| "DATABASE_ORM_COMPAT DNone = [ONone]"

definition BUN_ONLY_BACKENDS :: "BackendFramework list" where
  "BUN_ONLY_BACKENDS = [Elysia]"

definition RUNTIME_SELECTABLE_BACKENDS :: "BackendFramework list" where
  "RUNTIME_SELECTABLE_BACKENDS = [Hono]"

definition SKIP_DB_BACKENDS :: "BackendFramework list" where
  "SKIP_DB_BACKENDS = [BConvex, BNone]"

section \<open>Layout classification (generators/backends/index.ts and generate)\<close>

text \<open>\<^verbatim>\<open>xs.includes(x)\<close> is membership in the list.\<close>

definition separatePackageBackends :: "BackendFramework list" where
  "separatePackageBackends = [Express, Fastify, Hono, Elysia, Nestjs]"

definition requiresSeparatePackage :: "BackendFramework \<Rightarrow> bool" where
  "requiresSeparatePackage fw \<longleftrightarrow> fw \<in> set separatePackageBackends"

definition integratedBackends :: "BackendFramework list" where
  "integratedBackends = [NextjsBuiltin, BConvex]"

definition integratesWithFrontend :: "BackendFramework \<Rightarrow> bool" where
  "integratesWithFrontend fw \<longleftrightarrow> fw \<in> set integratedBackends"

text \<open>
  \<^verbatim>\<open>generate\<close> computes \<^verbatim>\<open>isMonorepo = requiresSeparatePackage(finalConfig.backend)\<close> and
  \<^verbatim>\<open>isIntegratedBackend = integratesWithFrontend(finalConfig.backend)\<close>, takes the monorepo
  branch when the first holds, and otherwise the single-project branch, where the second
  flag decides whether backend files are generated into the frontend package. The three
  outcomes of that branching are the layout decision.
\<close>

datatype LayoutDecision = LayoutNone | Integrated | Separate

definition classify :: "BackendFramework \<Rightarrow> LayoutDecision" where
  "classify b =
     (if requiresSeparatePackage b then Separate
      else if integratesWithFrontend b then Integrated
      else LayoutNone)"

text \<open>The layout \<^verbatim>\<open>generate\<close> chooses for a configuration: it reads the backend field only.\<close>

definition layoutOf :: "ProjectConfig \<Rightarrow> LayoutDecision" where
  "layoutOf config = classify (backend config)"

section \<open>JavaScript objects and manifests\<close>

text \<open>
  A \<^verbatim>\<open>Record<string, string>\<close> is an association list in insertion order. Assigning a
  property (\<^verbatim>\<open>o[k] = v\<close>) replaces the value of an existing key in place and appends a new
  key otherwise, which is \<^const>\<open>AList.update\<close>. The spread literal \<^verbatim>\<open>{ ...a, ...b }\<close>
  creates a fresh object and assigns to it the properties of \<^verbatim>\<open>a\<close> and then those of \<^verbatim>\<open>b\<close>,
  in order; spreading \<^verbatim>\<open>undefined\<close> assigns nothing. (JavaScript lists keys that are
  canonical array indices first; package and script names are not such keys.)
\<close>

type_synonym obj = "(string \<times> string) list"

definition assign :: "obj \<Rightarrow> string \<times> string \<Rightarrow> obj" where
  "assign ob kv = AList.update (fst kv) (snd kv) ob"

definition spread :: "obj option \<Rightarrow> obj \<Rightarrow> obj" where
  "spread a b = foldl assign (foldl assign [] (case a of None \<Rightarrow> [] | Some xs \<Rightarrow> xs)) b"

text \<open>
  The manifest \<^verbatim>\<open>generateSingleProject\<close> reads back from \<^verbatim>\<open>package.json\<close>: its three
  mapping-valued fields may be absent (\<^verbatim>\<open>undefined\<close>); every other field is carried along
  untouched.
\<close>

record PackageJson =
  scripts :: "obj option"
  dependencies :: "obj option"
  devDependencies :: "obj option"
  otherFields :: "(string \<times> string) list"

text \<open>The object literal \<^verbatim>\<open>rootPackageJson\<close> of \<^verbatim>\<open>createRootPackageJson\<close>.\<close>

record RootPackageJson =
  root_name :: string
  root_version :: string
  root_private :: bool
  root_workspaces :: "string list"
  root_scripts :: obj
  root_devDependencies :: obj

section \<open>Effects: errors, the user, the system and the trace of what was done\<close>

datatype error =
  CANCELLED
  | ExecaFailed string "string list"

text \<open>
  A prompt of @clack/prompts returns the chosen value or the cancel symbol, which
  \<^verbatim>\<open>p.isCancel\<close> recognises.
\<close>

datatype 'a answer = Cancel | Answer 'a

text \<open>
  Everything the program does to the outside is recorded, in order, as an event: prompts
  shown, log lines, processes started, files written, template generators called. The
  colour wrappers of picocolors (\<^verbatim>\<open>pc.dim\<close>, \<^verbatim>\<open>pc.yellow\<close>, ...) leave the text as it is.
\<close>

datatype event =
  Intro string
  | Outro string
  | TextPrompt string
  | SelectPrompt string "string list"
  | MultiselectPrompt string "string list"
  | ConfirmPrompt string
  | LogWarn string
  | LogInfo string
  | SpinnerStart string
  | SpinnerStop string
  | ConsoleLog string
  | Execa string "string list" "string option"
  | EnsureDir string
  | WriteFile string string
  | ReadJSON string
  | WritePackageJson string PackageJson
  | WriteRootPackageJson string RootPackageJson
  | FrontendGenerate Framework string ProjectConfig
  | BackendGenerate BackendFramework string ProjectConfig
  | GenerateDockerCompose string ProjectConfig
  | PrintSuccessMessage ProjectConfig string bool bool

text \<open>
  What the user answers to each prompt, should it be shown. Each prompt is shown at most
  once in a run.
\<close>

record User =
  ans_projectName :: "string answer"
  ans_framework :: "Framework answer"
  ans_backend :: "BackendFramework answer"
  ans_runtime :: "HonoRuntime answer"
  ans_database :: "Database answer"
  ans_orm :: "ORM answer"
  ans_auth :: "Auth answer"
  ans_styling :: "Styling answer"
  ans_packageManager :: "PackageManager answer"
  ans_extras :: "string list answer"
  ans_confirm :: "bool answer"

text \<open>
  What the system answers: the working directory, Node's path functions, the state of the
  file system where it is read, and whether a child process started by execa succeeds
  (command, arguments and the \<^verbatim>\<open>cwd\<close> option). File-system calls are taken not to throw.
\<close>

record System =
  cwd :: string
  path_basename :: "string \<Rightarrow> string"
  path_resolve :: "string \<Rightarrow> string \<Rightarrow> string"
  path_join :: "string list \<Rightarrow> string"
  existsSync :: "string \<Rightarrow> bool"
  readdirSync :: "string \<Rightarrow> string list"
  readJSON :: "string \<Rightarrow> PackageJson"
  execa_ok :: "string \<Rightarrow> string list \<Rightarrow> string option \<Rightarrow> bool"

text \<open>
  A computation returns an error (a thrown exception) or a value, together with the events
  it emitted up to that point.
\<close>

type_synonym 'a io = "(error + 'a) \<times> event list"

definition io_return :: "'a \<Rightarrow> 'a io" where
  "io_return x = (Inr x, [])"

definition io_throw :: "error \<Rightarrow> 'a io" where
  "io_throw e = (Inl e, [])"

definition emit :: "event \<Rightarrow> unit io" where
  "emit ev = (Inr (), [ev])"

definition io_bind :: "'a io \<Rightarrow> ('a \<Rightarrow> 'b io) \<Rightarrow> 'b io" where
  "io_bind m f =
     (case m of
        (Inl e, t) \<Rightarrow> (Inl e, t)
      | (Inr x, t) \<Rightarrow> (case f x of (r, t') \<Rightarrow> (r, t @ t')))"

definition io_seq :: "unit io \<Rightarrow> 'b io \<Rightarrow> 'b io" where
  "io_seq m n = io_bind m (\<lambda>_. n)"

text \<open>\<^verbatim>\<open>try { m } catch { h }\<close>: the events of the failed body stay, the handler runs.\<close>

definition try_catch :: "'a io \<Rightarrow> (error \<Rightarrow> 'a io) \<Rightarrow> 'a io" where
  "try_catch m h =
     (case m of
        (Inl e, t) \<Rightarrow> (case h e of (r, t') \<Rightarrow> (r, t @ t'))
      | (Inr x, t) \<Rightarrow> (Inr x, t))"

text \<open>\<^verbatim>\<open>await execa(cmd, args, { cwd })\<close> rejects when the process fails.\<close>

definition execa :: "System \<Rightarrow> string \<Rightarrow> string list \<Rightarrow> string option \<Rightarrow> unit io" where
  "execa sys cmd args dir =
     io_seq (emit (Execa cmd args dir))
       (if execa_ok sys cmd args dir then io_return () else io_throw (ExecaFailed cmd args))"

section \<open>Version control (src/utils/git.ts)\<close>

definition initGit :: "System \<Rightarrow> string \<Rightarrow> unit io" where
  "initGit sys dir =
     try_catch
       (io_seq (execa sys ''git'' [''init''] (Some dir))
       (io_seq (execa sys ''git'' [''add'', ''-A''] (Some dir))
               (execa sys ''git'' [''commit'', ''-m'', ''Initial commit from create-mrn-app'']
                  (Some dir))))
       (\<lambda>_. io_return ())"

section \<open>Package manager (utils/package-manager.ts)\<close>

fun getInstallCommand :: "PackageManager \<Rightarrow> string \<times> string list" where
  "getInstallCommand Npm = (''npm'', [''install''])"
| "getInstallCommand Pnpm = (''pnpm'', [''install''])"
| "getInstallCommand Bun = (''bun'', [''install''])"

definition installDependencies :: "System \<Rightarrow> string \<Rightarrow> PackageManager \<Rightarrow> unit io" where
  "installDependencies sys dir pm =
     (case getInstallCommand pm of (cmd, args) \<Rightarrow> execa sys cmd args (Some dir))"

section \<open>Backend generators (generators/backends)\<close>

datatype BackendGenerator =
  ExpressGenerator | FastifyGenerator | HonoGenerator | ElysiaGenerator | NestJSGenerator
  | ConvexGenerator | NextJSAPIGenerator

fun getBackendGenerator :: "BackendFramework \<Rightarrow> BackendGenerator option" where
  "getBackendGenerator Express = Some ExpressGenerator"
| "getBackendGenerator Fastify = Some FastifyGenerator"
| "getBackendGenerator Hono = Some HonoGenerator"
| "getBackendGenerator Elysia = Some ElysiaGenerator"
| "getBackendGenerator Nestjs = Some NestJSGenerator"
| "getBackendGenerator BConvex = Some ConvexGenerator"
| "getBackendGenerator NextjsBuiltin = Some NextJSAPIGenerator"
| "getBackendGenerator BNone = None"

text \<open>
  The manifest entries of the five generators that extend \<^verbatim>\<open>BaseBackendGenerator\<close> belong to
  the template catalogue; they are a parameter. Those of \<^verbatim>\<open>ConvexGenerator\<close> and
  \<^verbatim>\<open>NextJSAPIGenerator\<close>, the two generators of integrated backends, are modelled in full.
\<close>

record TemplateCatalog =
  base_getScripts :: "BackendGenerator \<Rightarrow> ProjectConfig \<Rightarrow> obj"
  base_getDependencies :: "BackendGenerator \<Rightarrow> ProjectConfig \<Rightarrow> obj"
  base_getDevDependencies :: "BackendGenerator \<Rightarrow> ProjectConfig \<Rightarrow> obj"

definition NextJSAPI_getDependencies :: "ProjectConfig \<Rightarrow> obj" where
  "NextJSAPI_getDependencies config =
     (let deps = [(''zod'', ''^3.23.0'')];
          deps = (if orm config = Prisma
                  then assign deps (''@prisma/client'', ''^5.22.0'') else deps);
          deps = (if orm config = Drizzle then
                    (let deps = assign deps (''drizzle-orm'', ''^0.36.0'');
                         deps = (if database config = Sqlite \<or> database config = Turso
                                 then assign deps (''better-sqlite3'', ''^11.6.0'') else deps);
                         deps = (if database config = Neon \<or> database config = Supabase
                                 then assign deps (''@neondatabase/serverless'', ''^0.10.0'')
                                 else deps);
                         deps = (if database config = Planetscale
                                 then assign deps (''@planetscale/database'', ''^1.19.0'')
                                 else deps)
                     in deps)
                  else deps)
      in deps)"

definition NextJSAPI_getDevDependencies :: "ProjectConfig \<Rightarrow> obj" where
  "NextJSAPI_getDevDependencies config =
     (let devDeps = [];
          devDeps = (if orm config = Prisma
                     then assign devDeps (''prisma'', ''^5.22.0'') else devDeps);
          devDeps = (if orm config = Drizzle then
                       (let devDeps = assign devDeps (''drizzle-kit'', ''^0.28.0'');
                            devDeps = (if database config = Sqlite \<or> database config = Turso
                                       then assign devDeps (''@types/better-sqlite3'', ''^7.6.0'')
                                       else devDeps)
                        in devDeps)
                     else devDeps)
      in devDeps)"

definition NextJSAPI_getScripts :: "ProjectConfig \<Rightarrow> obj" where
  "NextJSAPI_getScripts config =
     (let scripts = [];
          scripts = (if orm config = Prisma then
                       foldl assign scripts
                         [(''db:generate'', ''prisma generate''),
                          (''db:push'', ''prisma db push''),
                          (''db:migrate'', ''prisma migrate dev''),
                          (''db:studio'', ''prisma studio'')]
                     else scripts);
          scripts = (if orm config = Drizzle then
                       foldl assign scripts
                         [(''db:generate'', ''drizzle-kit generate''),
                          (''db:push'', ''drizzle-kit push''),
                          (''db:migrate'', ''drizzle-kit migrate''),
                          (''db:studio'', ''drizzle-kit studio'')]
                     else scripts)
      in scripts)"

fun getDependencies :: "TemplateCatalog \<Rightarrow> BackendGenerator \<Rightarrow> ProjectConfig \<Rightarrow> obj" where
  "getDependencies cat ConvexGenerator config = [(''convex'', ''^1.17.0'')]"
| "getDependencies cat NextJSAPIGenerator config = NextJSAPI_getDependencies config"
| "getDependencies cat g config = base_getDependencies cat g config"

fun getDevDependencies :: "TemplateCatalog \<Rightarrow> BackendGenerator \<Rightarrow> ProjectConfig \<Rightarrow> obj" where
  "getDevDependencies cat ConvexGenerator config = []"
| "getDevDependencies cat NextJSAPIGenerator config = NextJSAPI_getDevDependencies config"
| "getDevDependencies cat g config = base_getDevDependencies cat g config"

fun getScripts :: "TemplateCatalog \<Rightarrow> BackendGenerator \<Rightarrow> ProjectConfig \<Rightarrow> obj" where
  "getScripts cat ConvexGenerator config =
     [(''convex:dev'', ''convex dev''),
      (''convex:deploy'', ''convex deploy''),
      (''convex:codegen'', ''convex codegen'')]"
| "getScripts cat NextJSAPIGenerator config = NextJSAPI_getScripts config"
| "getScripts cat g config = base_getScripts cat g config"

text \<open>
  \<^verbatim>\<open>"getDependencies" in backendGenerator\<close> and \<^verbatim>\<open>"getScripts" in backendGenerator\<close>: every
  generator class has both methods (the subclasses of \<^verbatim>\<open>BaseBackendGenerator\<close> implement its
  abstract ones), and so has \<^verbatim>\<open>generate\<close>.
\<close>

definition has_getDependencies :: "BackendGenerator \<Rightarrow> bool" where
  "has_getDependencies g = True"

definition has_getScripts :: "BackendGenerator \<Rightarrow> bool" where
  "has_getScripts g = True"

definition has_generate :: "BackendGenerator \<Rightarrow> bool" where
  "has_generate g = True"

section \<open>Project generation (generators/index.ts)\<close>

subsection \<open>Single package\<close>

text \<open>
  The merge of the backend's entries into the manifest read from \<^verbatim>\<open>package.json\<close>: the three
  assignments between \<^verbatim>\<open>fs.readJSON\<close> and \<^verbatim>\<open>fs.writeJSON\<close> in \<^verbatim>\<open>generateSingleProject\<close>.
\<close>

definition generateSingleProject_merge ::
  "TemplateCatalog \<Rightarrow> BackendGenerator \<Rightarrow> ProjectConfig \<Rightarrow> PackageJson \<Rightarrow> PackageJson" where
  "generateSingleProject_merge cat backendGenerator config packageJson =
     (let backendDeps = getDependencies cat backendGenerator config;
          packageJson = packageJson
            \<lparr>dependencies := Some (spread (dependencies packageJson) backendDeps)\<rparr>;
          backendDevDeps = getDevDependencies cat backendGenerator config;
          packageJson = packageJson
            \<lparr>devDependencies := Some (spread (devDependencies packageJson) backendDevDeps)\<rparr>;
          packageJson =
            (if has_getScripts backendGenerator then
               (let backendScripts = getScripts cat backendGenerator config
                in packageJson\<lparr>scripts := Some (spread (scripts packageJson) backendScripts)\<rparr>)
             else packageJson)
      in packageJson)"

definition generateSingleProject ::
  "TemplateCatalog \<Rightarrow> System \<Rightarrow> string \<Rightarrow> ProjectConfig \<Rightarrow> bool \<Rightarrow> unit io" where
  "generateSingleProject cat sys projectPath config isIntegratedBackend =
     io_seq (emit (SpinnerStart ''Generating project files...''))
    (io_seq (emit (FrontendGenerate (framework config) projectPath config))
    (io_seq
       (if isIntegratedBackend then
          (case getBackendGenerator (backend config) of
             None \<Rightarrow> io_return ()
           | Some backendGenerator \<Rightarrow>
               io_seq (emit (BackendGenerate (backend config) projectPath config))
                 (if has_getDependencies backendGenerator then
                    (let packageJsonPath = path_join sys [projectPath, ''package.json'']
                     in io_seq (emit (ReadJSON packageJsonPath))
                          (emit (WritePackageJson packageJsonPath
                             (generateSingleProject_merge cat backendGenerator config
                                (readJSON sys packageJsonPath)))))
                  else io_return ()))
        else io_return ())
    (io_seq (emit (SpinnerStop ''Project files generated''))
    (io_seq (emit (SpinnerStart
               (''Installing dependencies with '' @ PackageManager_str (packageManager config)
                  @ ''...'')))
    (io_seq (installDependencies sys projectPath (packageManager config))
            (emit (SpinnerStop ''Dependencies installed'')))))))"

subsection \<open>Monorepo\<close>

definition rootPackageJson :: "ProjectConfig \<Rightarrow> RootPackageJson" where
  \<open>rootPackageJson config =
     (let pm = PackageManager_str (packageManager config) in
      \<lparr>root_name = projectName config,
       root_version = ''0.1.0'',
       root_private = True,
       root_workspaces = [''packages/*''],
       root_scripts =
         [(''dev'', ''concurrently "pnpm --filter frontend dev" "pnpm --filter backend dev"''),
          (''dev:frontend'', pm @ '' --filter frontend dev''),
          (''dev:backend'', pm @ '' --filter backend dev''),
          (''build'', pm @ '' --filter frontend build && '' @ pm @ '' --filter backend build''),
          (''build:frontend'', pm @ '' --filter frontend build''),
          (''build:backend'', pm @ '' --filter backend build''),
          (''lint'', pm @ '' --filter "*" lint''),
          (''test'', pm @ '' --filter "*" test'')],
       root_devDependencies = [(''concurrently'', ''^9.1.0'')]\<rparr>)\<close>

definition createRootPackageJson :: "System \<Rightarrow> string \<Rightarrow> ProjectConfig \<Rightarrow> unit io" where
  "createRootPackageJson sys projectPath config =
     emit (WriteRootPackageJson (path_join sys [projectPath, ''package.json''])
             (rootPackageJson config))"

definition createPnpmWorkspace :: "System \<Rightarrow> string \<Rightarrow> unit io" where
  \<open>createPnpmWorkspace sys projectPath =
     emit (WriteFile (path_join sys [projectPath, ''pnpm-workspace.yaml''])
             (''packages:'' @ [CHR 0x0A] @ ''  - "packages/*"'' @ [CHR 0x0A]))\<close>

definition generateMonorepoProject ::
  "System \<Rightarrow> string \<Rightarrow> ProjectConfig \<Rightarrow> unit io" where
  "generateMonorepoProject sys projectPath config =
     (let frontendPath = path_join sys [projectPath, ''packages'', ''frontend''];
          backendPath = path_join sys [projectPath, ''packages'', ''backend'']
      in
     io_seq (emit (SpinnerStart ''Setting up monorepo structure...''))
    (io_seq (emit (EnsureDir frontendPath))
    (io_seq (emit (EnsureDir backendPath))
    (io_seq (createRootPackageJson sys projectPath config)
    (io_seq (if packageManager config = Pnpm then createPnpmWorkspace sys projectPath
             else io_return ())
    (io_seq (emit (SpinnerStop ''Monorepo structure created''))
    (io_seq (emit (SpinnerStart ''Generating frontend...''))
    (io_seq (emit (FrontendGenerate (framework config) frontendPath
                     (config\<lparr>projectName := ''frontend''\<rparr>)))
    (io_seq (emit (SpinnerStop ''Frontend generated''))
    (io_seq (emit (SpinnerStart ''Generating backend...''))
    (io_seq (case getBackendGenerator (backend config) of
               None \<Rightarrow> io_return ()
             | Some backendGenerator \<Rightarrow>
                 (if has_generate backendGenerator then
                    emit (BackendGenerate (backend config) backendPath
                            (config\<lparr>projectName := ''backend''\<rparr>))
                  else io_return ()))
    (io_seq (emit (SpinnerStop ''Backend generated''))
    (io_seq (if docker (extras config) then
               io_seq (emit (SpinnerStart ''Generating Docker configuration...''))
              (io_seq (emit (GenerateDockerCompose projectPath config))
                      (emit (SpinnerStop ''Docker configuration generated'')))
             else io_return ())
    (io_seq (emit (SpinnerStart
               (''Installing dependencies with '' @ PackageManager_str (packageManager config)
                  @ ''...'')))
    (io_seq (installDependencies sys projectPath (packageManager config))
            (emit (SpinnerStop ''Dependencies installed'')))))))))))))))))"

subsection \<open>The entry point\<close>

definition startsWith :: "string \<Rightarrow> string \<Rightarrow> bool" where
  "startsWith s p \<longleftrightarrow> take (length p) s = p"

text \<open>
  The sections of \<^verbatim>\<open>generate\<close> around the layout branch: the confirmation asked when the target
  directory exists and is not empty, the creation of the project directory, and the
  initialisation of git.
\<close>

definition generate_confirm :: "System \<Rightarrow> User \<Rightarrow> ProjectConfig \<Rightarrow> string \<Rightarrow> unit io" where
  "generate_confirm sys user config projectPath =
     (if existsSync sys projectPath then
        (let files = filter (\<lambda>f. \<not> startsWith f ''.'' \<or> f = ''.env'')
                       (readdirSync sys projectPath)
         in if length files > 0 then
              io_seq (emit (ConfirmPrompt
                        (if projectName config = ''.''
                         then ''Current directory is not empty. Continue anyway?''
                         else ''Directory '' @ projectName config
                                @ '' is not empty. Continue anyway?'')))
                (case ans_confirm user of
                   Answer shouldContinue \<Rightarrow>
                     (if \<not> shouldContinue then io_throw CANCELLED else io_return ())
                 | Cancel \<Rightarrow> io_throw CANCELLED)
            else io_return ())
      else io_return ())"

definition generate_createDirectory :: "bool \<Rightarrow> string \<Rightarrow> unit io" where
  "generate_createDirectory isCurrentDir projectPath =
     (if \<not> isCurrentDir then
        io_seq (emit (SpinnerStart ''Creating project directory...''))
       (io_seq (emit (EnsureDir projectPath))
               (emit (SpinnerStop ''Project directory created'')))
      else io_return ())"

definition generate_initGit :: "System \<Rightarrow> string \<Rightarrow> unit io" where
  "generate_initGit sys projectPath =
     (let hasGit = existsSync sys (path_join sys [projectPath, ''.git''])
      in if \<not> hasGit then
           io_seq (emit (SpinnerStart ''Initializing git repository...''))
          (io_seq (initGit sys projectPath)
                  (emit (SpinnerStop ''Git repository initialized'')))
         else io_return ())"

definition generate :: "TemplateCatalog \<Rightarrow> System \<Rightarrow> User \<Rightarrow> ProjectConfig \<Rightarrow> unit io" where
  "generate cat sys user config =
     (let isCurrentDir = (projectName config = ''.'');
          projectPath = (if isCurrentDir then cwd sys
                         else path_resolve sys (cwd sys) (projectName config));
          actualProjectName = (if isCurrentDir then path_basename sys (cwd sys)
                               else path_basename sys (projectName config));
          finalConfig = config\<lparr>projectName := actualProjectName\<rparr>;
          isMonorepo = requiresSeparatePackage (backend finalConfig);
          isIntegratedBackend = integratesWithFrontend (backend finalConfig)
      in
     io_seq (generate_confirm sys user config projectPath)
    (io_seq (generate_createDirectory isCurrentDir projectPath)
    (io_seq
       (if isMonorepo then generateMonorepoProject sys projectPath finalConfig
        else generateSingleProject cat sys projectPath finalConfig isIntegratedBackend)
    (io_seq (generate_initGit sys projectPath)
    (io_seq (emit (ConsoleLog []))
    (io_seq (emit (PrintSuccessMessage finalConfig projectPath isCurrentDir isMonorepo))
            (emit (ConsoleLog []))))))))"

section \<open>Configuration resolution (src/prompts/index.ts)\<close>

text \<open>
  The options passed in from the command line; every field is optional. The fields are
  named after those of \<^verbatim>\<open>PromptOptions\<close>, with a prefix.
\<close>

record PromptOptions =
  opt_projectName :: "string option"
  opt_framework :: "Framework option"
  opt_backend :: "BackendFramework option"
  opt_database :: "Database option"
  opt_orm :: "ORM option"
  opt_auth :: "Auth option"
  opt_styling :: "Styling option"
  opt_packageManager :: "PackageManager option"
  opt_runtime :: "HonoRuntime option"

text \<open>
  \<^verbatim>\<open>options.x || (await p.select(...))\<close> followed by \<^verbatim>\<open>if (p.isCancel(x)) throw new
  Error("CANCELLED")\<close>: the prompt is shown only when the option is falsy, and only a prompt
  can yield the cancel symbol. Every enumeration literal is a non-empty string and so
  truthy; a project name is falsy when it is the empty string.
\<close>

definition or_prompt :: "'a option \<Rightarrow> 'a io \<Rightarrow> 'a io" where
  "or_prompt opt prompt = (case opt of Some v \<Rightarrow> io_return v | None \<Rightarrow> prompt)"

definition isCancel :: "'a answer \<Rightarrow> 'a io" where
  "isCancel a = (case a of Cancel \<Rightarrow> io_throw CANCELLED | Answer v \<Rightarrow> io_return v)"

definition select :: "string \<Rightarrow> string list \<Rightarrow> 'a answer \<Rightarrow> 'a io" where
  "select message options a = io_seq (emit (SelectPrompt message options)) (isCancel a)"

definition text_prompt :: "string \<Rightarrow> string answer \<Rightarrow> string io" where
  "text_prompt message a = io_seq (emit (TextPrompt message)) (isCancel a)"

definition multiselect :: "string \<Rightarrow> string list \<Rightarrow> string list answer \<Rightarrow> string list io" where
  "multiselect message options a =
     io_seq (emit (MultiselectPrompt message options)) (isCancel a)"

definition truthy :: "string option \<Rightarrow> string option" where
  "truthy opt = (case opt of None \<Rightarrow> None | Some s \<Rightarrow> if s = [] then None else Some s)"

subsection \<open>src/utils/runtime.ts\<close>

definition checkBunInstalled :: "System \<Rightarrow> bool io" where
  "checkBunInstalled sys =
     try_catch (io_seq (execa sys ''bun'' [''--version''] None) (io_return True))
       (\<lambda>_. io_return False)"

subsection \<open>The sections of \<^verbatim>\<open>runPrompts\<close>\<close>

text \<open>
  The body of \<^verbatim>\<open>runPrompts\<close> is a sequence of sections, each resolving one field (or two).
  Each section is a definition here; \<^verbatim>\<open>runPrompts\<close> below runs them in the source's order.
\<close>

text \<open>The project name, the frontend framework and the backend framework.\<close>

definition runPrompts_projectName :: "User \<Rightarrow> PromptOptions \<Rightarrow> string io" where
  "runPrompts_projectName user options =
     or_prompt (truthy (opt_projectName options))
       (text_prompt ''What is your project name?'' (ans_projectName user))"

definition runPrompts_framework :: "User \<Rightarrow> PromptOptions \<Rightarrow> Framework io" where
  "runPrompts_framework user options =
     or_prompt (opt_framework options)
       (select ''Which frontend framework would you like to use?''
          [''next'', ''react'', ''vue'', ''astro''] (ans_framework user))"

definition runPrompts_backend ::
  "User \<Rightarrow> PromptOptions \<Rightarrow> Framework \<Rightarrow> BackendFramework io" where
  "runPrompts_backend user options framework' =
     (let availableBackends = FRAMEWORK_BACKEND_COMPAT framework' in
      or_prompt (opt_backend options)
        (select ''Which backend framework would you like to use?''
           (map BackendFramework_str
              (filter (\<lambda>opt. opt \<in> set availableBackends)
                 [BNone, NextjsBuiltin, Express, Fastify, Nestjs, Hono, Elysia, BConvex]))
           (ans_backend user)))"

text \<open>
  ``Handle Elysia - requires Bun'': the value of \<^verbatim>\<open>forcePackageManager\<close> after the section.
  The warning's text starts with a warning sign, left out here.
\<close>

definition runPrompts_bunOnly :: "System \<Rightarrow> BackendFramework \<Rightarrow> PackageManager option io" where
  "runPrompts_bunOnly sys backend' =
     (if backend' \<in> set BUN_ONLY_BACKENDS then
        io_bind (checkBunInstalled sys) (\<lambda>bunInstalled.
        io_seq
          (if \<not> bunInstalled then
             io_seq
               (emit (LogWarn
                  ''Elysia requires Bun runtime. Please install Bun: https://bun.sh''))
               (emit (LogInfo ''Run: curl -fsSL https://bun.sh/install | bash''))
           else io_return ())
          (io_return (Some Bun)))
      else io_return None)"

text \<open>
  ``Handle Hono - ask for runtime'': the values of \<^verbatim>\<open>forcePackageManager\<close> and \<^verbatim>\<open>runtime\<close>
  after the section.
\<close>

definition runPrompts_runtime ::
  "User \<Rightarrow> PromptOptions \<Rightarrow> BackendFramework \<Rightarrow> PackageManager option
     \<Rightarrow> (PackageManager option \<times> HonoRuntime option) io" where
  "runPrompts_runtime user options backend' forcePackageManager =
     (if backend' \<in> set RUNTIME_SELECTABLE_BACKENDS then
        io_bind
          (or_prompt (opt_runtime options)
             (select ''Which runtime for Hono?'' [''node'', ''bun''] (ans_runtime user)))
          (\<lambda>runtime'.
             io_return
               (if runtime' = RBun then Some Bun else forcePackageManager, Some runtime'))
      else io_return (forcePackageManager, None))"

text \<open>``Database and ORM selection'': the values of \<^verbatim>\<open>database\<close> and \<^verbatim>\<open>orm\<close> after it.\<close>

definition runPrompts_database ::
  "User \<Rightarrow> PromptOptions \<Rightarrow> Framework \<Rightarrow> BackendFramework \<Rightarrow> (Database \<times> ORM) io" where
  "runPrompts_database user options framework' backend' =
     (if backend' \<notin> set SKIP_DB_BACKENDS then
        (let availableDBs = FRAMEWORK_DB_COMPAT framework' in
         io_bind
           (or_prompt (opt_database options)
              (select ''Which database would you like to use?''
                 (map Database_str
                    (filter (\<lambda>opt. opt \<in> set availableDBs)
                       [Supabase, Neon, Planetscale, Mongodb, Sqlite, Turso, DNone]))
                 (ans_database user)))
           (\<lambda>database'.
              if database' \<noteq> DNone then
                (let availableORMs = DATABASE_ORM_COMPAT database' in
                 if length availableORMs > 1 then
                   io_bind
                     (or_prompt (opt_orm options)
                        (select ''Which ORM would you like to use?''
                           (map ORM_str
                              (filter (\<lambda>opt. opt \<in> set availableORMs) [Prisma, Drizzle]))
                           (ans_orm user)))
                     (\<lambda>orm'. io_return (database', orm'))
                 else
                   (let orm' = availableORMs ! 0 in
                    io_seq
                      (if orm' \<noteq> ONone then
                         emit (LogInfo
                           (''Using '' @ ORM_str orm' @ '' for '' @ Database_str database'))
                       else io_return ())
                      (io_return (database', orm'))))
              else io_return (database', ONone)))
      else
        io_seq
          (if backend' = BConvex then
             emit (LogInfo
               ''Convex includes its own database - skipping database selection'')
           else io_return ())
          (io_return (DNone, ONone)))"

text \<open>The authentication provider and the styling solution.\<close>

definition runPrompts_auth :: "User \<Rightarrow> PromptOptions \<Rightarrow> Framework \<Rightarrow> Auth io" where
  "runPrompts_auth user options framework' =
     (let availableAuths = FRAMEWORK_AUTH_COMPAT framework' in
      or_prompt (opt_auth options)
        (select ''Which authentication would you like to use?''
           (map Auth_str
              (filter (\<lambda>opt. opt \<in> set availableAuths)
                 [NextAuth, Clerk, SupabaseAuth, BetterAuth, ANone]))
           (ans_auth user)))"

definition runPrompts_styling :: "User \<Rightarrow> PromptOptions \<Rightarrow> Styling io" where
  "runPrompts_styling user options =
     or_prompt (opt_styling options)
       (select ''Which styling solution would you like to use?''
          [''tailwind'', ''tailwind-shadcn'', ''css-modules'', ''vanilla'']
          (ans_styling user))"

text \<open>The resolution of \<^verbatim>\<open>packageManager\<close>.\<close>

definition runPrompts_packageManager ::
  "User \<Rightarrow> PromptOptions \<Rightarrow> BackendFramework \<Rightarrow> PackageManager option
     \<Rightarrow> PackageManager io" where
  "runPrompts_packageManager user options backend' forcePackageManager =
     (case forcePackageManager of
        Some forced \<Rightarrow>
          io_seq
            (emit (LogInfo
               (''Using '' @ PackageManager_str forced @ '' as package manager (required by ''
                  @ BackendFramework_str backend' @ '')'')))
            (io_return forced)
      | None \<Rightarrow>
          or_prompt (opt_packageManager options)
            (select ''Which package manager would you like to use?''
               [''pnpm'', ''npm'', ''bun''] (ans_packageManager user)))"

text \<open>The additional features.\<close>

definition runPrompts_extras :: "User \<Rightarrow> string list io" where
  "runPrompts_extras user =
     multiselect ''Select additional features:''
       [''typescript'', ''eslint'', ''testing'', ''playwright'', ''docker'']
       (ans_extras user)"

subsection \<open>\<^verbatim>\<open>runPrompts\<close>\<close>

text \<open>The sections in the order of the source; each may use the results of earlier ones.\<close>

definition runPrompts :: "System \<Rightarrow> User \<Rightarrow> PromptOptions \<Rightarrow> ProjectConfig io" where
  "runPrompts sys user options =
     io_seq (emit (Intro '' create-mrn-app ''))
    (io_bind (runPrompts_projectName user options) (\<lambda>projectName'.
     io_bind (runPrompts_framework user options) (\<lambda>framework'.
     io_bind (runPrompts_backend user options framework') (\<lambda>backend'.
     io_bind (runPrompts_bunOnly sys backend') (\<lambda>forcePackageManager.
     io_bind (runPrompts_runtime user options backend' forcePackageManager)
       (\<lambda>(forcePackageManager, runtime').
     io_bind (runPrompts_database user options framework' backend') (\<lambda>(database', orm').
     io_bind (runPrompts_auth user options framework') (\<lambda>auth'.
     io_bind (runPrompts_styling user options) (\<lambda>styling'.
     io_bind (runPrompts_packageManager user options backend' forcePackageManager)
       (\<lambda>packageManager'.
     io_bind (runPrompts_extras user) (\<lambda>extras'.
     io_seq (emit (Outro ''Configuration complete! Creating your project...''))
       (io_return
          \<lparr>projectName = projectName',
           framework = framework',
           backend = backend',
           database = database',
           orm = orm',
           auth = auth',
           styling = styling',
           packageManager = packageManager',
           runtime = runtime',
           extras =
             \<lparr>typescript = ''typescript'' \<in> set extras',
              eslint = ''eslint'' \<in> set extras',
              prettier = ''eslint'' \<in> set extras',
              testing = ''testing'' \<in> set extras',
              playwright = ''playwright'' \<in> set extras',
              docker = ''docker'' \<in> set extras'\<rparr>\<rparr>))))))))))))"

section \<open>Observations\<close>

text \<open>
  Reading a property of a manifest field: \<^verbatim>\<open>undefined\<close> for an absent field or key. The keys
  of an object are distinct.
\<close>

fun lookup :: "obj option \<Rightarrow> string \<Rightarrow> string option" where
  "lookup None k = None"
| "lookup (Some xs) k = map_of xs k"

fun distinct_keys :: "obj option \<Rightarrow> bool" where
  "distinct_keys None = True"
| "distinct_keys (Some xs) = distinct (map fst xs)"

text \<open>The manifests written during a run, in order.\<close>

definition rootManifests :: "event list \<Rightarrow> RootPackageJson list" where
  "rootManifests tr =
     concat (map (\<lambda>ev. case ev of WriteRootPackageJson p m \<Rightarrow> [m] | _ \<Rightarrow> []) tr)"

definition packageJsons :: "event list \<Rightarrow> PackageJson list" where
  "packageJsons tr =
     concat (map (\<lambda>ev. case ev of WritePackageJson p m \<Rightarrow> [m] | _ \<Rightarrow> []) tr)"

text \<open>
  The informational notices about a forced package manager: the text that \<^verbatim>\<open>runPrompts\<close>
  logs for a package manager and a backend, and the events that carry such a text.
\<close>

definition overrideText :: "PackageManager \<Rightarrow> BackendFramework \<Rightarrow> string" where
  "overrideText pm b =
     ''Using '' @ PackageManager_str pm @ '' as package manager (required by ''
       @ BackendFramework_str b @ '')''"

definition isOverrideNotice :: "event \<Rightarrow> bool" where
  "isOverrideNotice ev =
     (case ev of
        LogInfo s \<Rightarrow>
          s \<in> set [overrideText pm b. pm \<leftarrow> [Npm, Pnpm, Bun],
                     b \<leftarrow> [BNone, NextjsBuiltin, Express, Fastify, Nestjs, Hono, Elysia,
                           BConvex]]
      | _ \<Rightarrow> False)"

definition overrideNotices :: "event list \<Rightarrow> event list" where
  "overrideNotices tr = filter isOverrideNotice tr"

text \<open>All informational notices (\<^verbatim>\<open>p.log.info\<close>) of a run.\<close>

definition isLogInfo :: "event \<Rightarrow> bool" where
  "isLogInfo ev = (case ev of LogInfo s \<Rightarrow> True | _ \<Rightarrow> False)"

definition infoNotices :: "event list \<Rightarrow> event list" where
  "infoNotices tr = filter isLogInfo tr"

text \<open>The prompts for an ORM shown during a run.\<close>

definition isOrmPrompt :: "event \<Rightarrow> bool" where
  "isOrmPrompt ev =
     (case ev of
        SelectPrompt message options \<Rightarrow> message = ''Which ORM would you like to use?''
      | _ \<Rightarrow> False)"

definition ormPrompts :: "event list \<Rightarrow> event list" where
  "ormPrompts tr = filter isOrmPrompt tr"

section \<open>Example inputs\<close>

text \<open>A system where every process succeeds and paths are joined with a slash.\<close>

fun join_segments :: "string list \<Rightarrow> string" where
  "join_segments [] = ''.''"
| "join_segments [s] = s"
| "join_segments (s # ss) = s @ ''/'' @ join_segments ss"

definition example_sys :: System where
  "example_sys =
     \<lparr>cwd = ''/home/dev'',
      path_basename = (\<lambda>p. p),
      path_resolve = (\<lambda>a b. join_segments [a, b]),
      path_join = join_segments,
      existsSync = (\<lambda>p. False),
      readdirSync = (\<lambda>p. []),
      readJSON = (\<lambda>p. \<lparr>scripts = Some [(''dev'', ''next dev''), (''build'', ''next build'')],
                        dependencies = Some [(''next'', ''^15.0.0''), (''zod'', ''^3.0.0'')],
                        devDependencies = None,
                        otherFields = [(''name'', ''my-app'')]\<rparr>),
      execa_ok = (\<lambda>cmd args dir. True)\<rparr>"

text \<open>A system that differs in one respect: every call of git fails.\<close>

definition example_sys_no_git :: System where
  "example_sys_no_git = example_sys\<lparr>execa_ok := (\<lambda>cmd args dir. cmd \<noteq> ''git'')\<rparr>"

text \<open>A user who answers every prompt shown, choosing Drizzle when asked for an ORM.\<close>

definition example_user :: User where
  "example_user =
     \<lparr>ans_projectName = Answer ''my-app'',
      ans_framework = Answer Next,
      ans_backend = Answer BNone,
      ans_runtime = Answer RNode,
      ans_database = Answer DNone,
      ans_orm = Answer Drizzle,
      ans_auth = Answer ANone,
      ans_styling = Answer Tailwind,
      ans_packageManager = Answer Npm,
      ans_extras = Answer [''typescript'', ''eslint''],
      ans_confirm = Answer True\<rparr>"

definition no_options :: PromptOptions where
  "no_options =
     \<lparr>opt_projectName = None, opt_framework = None, opt_backend = None,
      opt_database = None, opt_orm = None, opt_auth = None, opt_styling = None,
      opt_packageManager = None, opt_runtime = None\<rparr>"

text \<open>React with Elysia, the user asking for npm.\<close>

definition example_options_elysia :: PromptOptions where
  "example_options_elysia =
     no_options\<lparr>opt_framework := Some React, opt_backend := Some Elysia,
                opt_packageManager := Some Npm\<rparr>"



text \<open>Next.js with its built-in backend and SQLite, no ORM given.\<close>

definition example_options_sqlite :: PromptOptions where
  "example_options_sqlite =
     no_options\<lparr>opt_framework := Some Next, opt_backend := Some NextjsBuiltin,
                opt_database := Some Sqlite\<rparr>"

definition example_config :: ProjectConfig where
  "example_config =
     \<lparr>projectName = ''my-app'', framework = React, backend = Express, database = DNone,
      orm = ONone, auth = ANone, styling = Tailwind, packageManager = Npm, runtime = None,
      extras = \<lparr>typescript = True, eslint = True, prettier = True, testing = False,
                playwright = False, docker = False\<rparr>\<rparr>"

definition example_catalog :: TemplateCatalog where
  "example_catalog =
     \<lparr>base_getScripts = (\<lambda>g config. []),
      base_getDependencies = (\<lambda>g config. []),
      base_getDevDependencies = (\<lambda>g config. [])\<rparr>"

section \<open>Layout classification\<close>

lemmas layout_defs =
  classify_def requiresSeparatePackage_def integratesWithFrontend_def
  separatePackageBackends_def integratedBackends_def

text \<open>
  C2. For every pair of a framework and a backend of its allow-list, the layout that
  \<^verbatim>\<open>generate\<close> chooses is separate for express, fastify, hono, elysia and nestjs, integrated
  for nextjs-builtin and convex, and none for every other backend (which is "none"); and any
  two configurations with the same backend get the same layout, whatever their framework
  and other fields.
\<close>

theorem classify_depends_on_backend_only:
  assumes "backend config \<in> set (FRAMEWORK_BACKEND_COMPAT (framework config))"
  shows "layoutOf config =
           (if backend config \<in> {Express, Fastify, Hono, Elysia, Nestjs} then Separate
            else if backend config \<in> {NextjsBuiltin, BConvex} then Integrated
            else LayoutNone)
         \<and> (backend config \<notin> {Express, Fastify, Hono, Elysia, Nestjs, NextjsBuiltin, BConvex}
              \<longleftrightarrow> backend config = BNone)
         \<and> (\<forall>config'. backend config' = backend config
               \<longrightarrow> layoutOf config' = layoutOf config)"
  by (cases "backend config") (simp_all add: layoutOf_def layout_defs)

theorem classify_depends_on_backend_only_witness:
  "backend (example_config\<lparr>framework := Next, backend := NextjsBuiltin\<rparr>)
     \<in> set (FRAMEWORK_BACKEND_COMPAT
              (framework (example_config\<lparr>framework := Next, backend := NextjsBuiltin\<rparr>)))
   \<and> layoutOf (example_config\<lparr>framework := Next, backend := NextjsBuiltin\<rparr>) = Integrated
   \<and> layoutOf (example_config\<lparr>framework := React, backend := NextjsBuiltin\<rparr>) = Integrated"
  using classify_depends_on_backend_only
    [of "example_config\<lparr>framework := Next, backend := NextjsBuiltin\<rparr>"]
  by (simp add: example_config_def)

text \<open>
  C8. The two backend sets are disjoint: no backend requires a separate package and also
  integrates with the frontend. So the order of the two tests in \<^verbatim>\<open>generate\<close> hides nothing:
  a backend is classified separate exactly when it is in the first set and integrated
  exactly when it is in the second.
\<close>

theorem separate_integrated_disjoint:
  "set separatePackageBackends \<inter> set integratedBackends = {}
   \<and> \<not> (requiresSeparatePackage b \<and> integratesWithFrontend b)
   \<and> (classify b = Separate \<longleftrightarrow> requiresSeparatePackage b)
   \<and> (classify b = Integrated \<longleftrightarrow> integratesWithFrontend b)"
  by (cases b) (simp_all add: layout_defs)

theorem separate_integrated_disjoint_witness:
  "\<not> (requiresSeparatePackage Express \<and> integratesWithFrontend Express)
   \<and> classify BConvex = Integrated \<and> integratesWithFrontend BConvex"
  using separate_integrated_disjoint [of Express] separate_integrated_disjoint [of BConvex]
  by (simp add: integratesWithFrontend_def integratedBackends_def)

section \<open>Sequencing\<close>

lemma io_bind_Inr [simp]: "io_bind (Inr x, t) f = (fst (f x), t @ snd (f x))"
  by (simp add: io_bind_def split: prod.splits)

lemma io_bind_Inl [simp]: "io_bind (Inl e, t) f = (Inl e, t)"
  by (simp add: io_bind_def)

lemma io_seq_Inr [simp]: "io_seq (Inr u, t) n = (fst n, t @ snd n)"
  by (simp add: io_seq_def)

lemma io_seq_Inl [simp]: "io_seq (Inl e, t) n = (Inl e, t)"
  by (simp add: io_seq_def)

lemma try_catch_Inr [simp]: "try_catch (Inr x, t) h = (Inr x, t)"
  by (simp add: try_catch_def)

lemma try_catch_Inl [simp]: "try_catch (Inl e, t) h = (fst (h e), t @ snd (h e))"
  by (simp add: try_catch_def split: prod.splits)

lemmas io_defs = emit_def io_return_def io_throw_def execa_def

lemma fst_io_seq:
  "fst (io_seq m n) = (case fst m of Inl e \<Rightarrow> Inl e | Inr u \<Rightarrow> fst n)"
  by (cases m; cases "fst m") auto

section \<open>The monorepo branch\<close>

lemma monorepo_root_manifest:
  "rootManifests (snd (generateMonorepoProject sys projectPath config)) =
     [rootPackageJson config]"
  by (simp add: generateMonorepoProject_def Let_def io_defs
      createRootPackageJson_def createPnpmWorkspace_def installDependencies_def
      has_generate_def rootManifests_def
      split: option.splits prod.splits)

text \<open>
  C6. In the separate (monorepo) branch one workspace-root manifest is written, and the keys
  of its scripts mapping are exactly dev, dev:frontend, dev:backend, build, build:frontend,
  build:backend, lint and test, each once, whatever the configuration.
\<close>

theorem root_manifest_script_keys:
  "map (\<lambda>m. map fst (root_scripts m))
     (rootManifests (snd (generateMonorepoProject sys projectPath config))) =
   [[''dev'', ''dev:frontend'', ''dev:backend'', ''build'', ''build:frontend'',
     ''build:backend'', ''lint'', ''test'']]"
  by (simp add: monorepo_root_manifest rootPackageJson_def Let_def)

theorem root_manifest_script_keys_witness:
  "map (\<lambda>m. map fst (root_scripts m))
     (rootManifests (snd (generateMonorepoProject example_sys ''/home/dev/my-app''
        example_config))) =
   [[''dev'', ''dev:frontend'', ''dev:backend'', ''build'', ''build:frontend'',
     ''build:backend'', ''lint'', ''test'']]"
  using root_manifest_script_keys [of example_sys "''/home/dev/my-app''" example_config]
  by simp

text \<open>
  C7, as the code has it. In the separate (monorepo) branch the workspaces field of the
  workspace-root manifest is the one-element list holding the glob \<^verbatim>\<open>packages/*\<close>, whatever the
  configuration; it does not name the two sub-package directories.
\<close>

theorem root_manifest_workspaces:
  "map root_workspaces
     (rootManifests (snd (generateMonorepoProject sys projectPath config))) =
   [[''packages/*'']]"
  by (simp add: monorepo_root_manifest rootPackageJson_def Let_def)

theorem root_manifest_workspaces_witness:
  "map root_workspaces
     (rootManifests (snd (generateMonorepoProject example_sys ''/home/dev/my-app''
        example_config))) =
   [[''packages/*'']]"
  using root_manifest_workspaces [of example_sys "''/home/dev/my-app''" example_config]
  by simp

text \<open>
  The sentence of the specification about the workspaces field fails on the code: for React
  with Express the field written is not the list of the two directories
  \<^verbatim>\<open>packages/frontend\<close> and \<^verbatim>\<open>packages/backend\<close>.
\<close>

theorem root_manifest_workspaces_counterexample:
  "requiresSeparatePackage (backend example_config)
   \<and> map root_workspaces
        (rootManifests (snd (generateMonorepoProject example_sys ''/home/dev/my-app''
           example_config)))
       \<noteq> [[''packages/frontend'', ''packages/backend'']]"
  by (simp add: monorepo_root_manifest rootPackageJson_def Let_def example_config_def
      layout_defs)

text \<open>
  C10. In the workspace-root manifest of the separate (monorepo) branch the dev script is the
  same text for every package manager and names pnpm, while dev:frontend, dev:backend,
  build, lint and test start with the name of the configuration's package manager.
\<close>

theorem root_manifest_dev_script_fixed:
  \<open>\<exists>m. rootManifests (snd (generateMonorepoProject sys projectPath config)) = [m]
     \<and> map_of (root_scripts m) ''dev'' =
         Some ''concurrently "pnpm --filter frontend dev" "pnpm --filter backend dev"''
     \<and> map_of (root_scripts m) ''dev:frontend'' =
         Some (PackageManager_str (packageManager config) @ '' --filter frontend dev'')
     \<and> map_of (root_scripts m) ''dev:backend'' =
         Some (PackageManager_str (packageManager config) @ '' --filter backend dev'')
     \<and> map_of (root_scripts m) ''build'' =
         Some (PackageManager_str (packageManager config) @ '' --filter frontend build && ''
                 @ PackageManager_str (packageManager config) @ '' --filter backend build'')
     \<and> map_of (root_scripts m) ''lint'' =
         Some (PackageManager_str (packageManager config) @ '' --filter "*" lint'')
     \<and> map_of (root_scripts m) ''test'' =
         Some (PackageManager_str (packageManager config) @ '' --filter "*" test'')\<close>
  by (simp add: monorepo_root_manifest rootPackageJson_def Let_def)

theorem root_manifest_dev_script_fixed_witness:
  \<open>\<exists>m. rootManifests (snd (generateMonorepoProject example_sys ''/home/dev/my-app''
            (example_config\<lparr>packageManager := Bun\<rparr>))) = [m]
     \<and> map_of (root_scripts m) ''dev'' =
         Some ''concurrently "pnpm --filter frontend dev" "pnpm --filter backend dev"''
     \<and> map_of (root_scripts m) ''dev:frontend'' = Some ''bun --filter frontend dev''
     \<and> map_of (root_scripts m) ''lint'' = Some ''bun --filter "*" lint''\<close>
  using root_manifest_dev_script_fixed
    [of example_sys "''/home/dev/my-app''" "example_config\<lparr>packageManager := Bun\<rparr>"]
  by (auto simp: example_config_def)

section \<open>Objects\<close>

lemma map_of_assign:
  "map_of (assign ob kv) k = (if k = fst kv then Some (snd kv) else map_of ob k)"
  by (simp add: assign_def update_conv')

lemma map_of_foldl_assign:
  "map_of (foldl assign acc xs) k =
     (case map_of (rev xs) k of Some v \<Rightarrow> Some v | None \<Rightarrow> map_of acc k)"
proof (induction xs arbitrary: acc)
  case Nil
  show ?case by simp
next
  case (Cons x xs)
  show ?case
    by (cases x) (auto simp: Cons.IH map_of_assign map_add_def split: option.splits)
qed

lemma distinct_map_of_rev:
  "distinct (map fst xs) \<Longrightarrow> map_of (rev xs) k = map_of xs k"
proof (induction xs)
  case Nil
  show ?case by simp
next
  case (Cons x xs)
  then have "fst x \<notin> fst ` set xs" and IH: "map_of (rev xs) k = map_of xs k"
    by simp_all
  then have "map_of (rev xs) (fst x) = None"
    by (simp add: map_of_eq_None_iff)
  with IH show ?case
    by (cases x) (auto simp: map_add_def split: option.splits)
qed

lemma distinct_assign: "distinct (map fst ob) \<Longrightarrow> distinct (map fst (assign ob kv))"
  by (simp add: assign_def distinct_update)

lemma distinct_foldl_assign:
  "distinct (map fst acc) \<Longrightarrow> distinct (map fst (foldl assign acc xs))"
  by (induction xs arbitrary: acc) (simp_all add: distinct_assign)

lemma distinct_spread: "distinct (map fst (spread a b))"
  by (simp add: spread_def distinct_foldl_assign)

lemma map_of_spread:
  assumes "distinct_keys a" and "distinct (map fst b)"
  shows "map_of (spread a b) k =
           (case map_of b k of Some v \<Rightarrow> Some v | None \<Rightarrow> lookup a k)"
  using assms
  by (cases a)
     (simp_all add: spread_def map_of_foldl_assign distinct_map_of_rev split: option.splits)

lemma map_of_spread_backend:
  assumes "distinct (map fst b)" and "(k, v) \<in> set b"
  shows "map_of (spread a b) k = Some v"
  using assms by (simp add: spread_def map_of_foldl_assign distinct_map_of_rev)

lemma distinct_NextJSAPI_getDependencies:
  "distinct (map fst (NextJSAPI_getDependencies config))"
  by (simp add: NextJSAPI_getDependencies_def Let_def distinct_assign)

lemma distinct_NextJSAPI_getDevDependencies:
  "distinct (map fst (NextJSAPI_getDevDependencies config))"
  by (simp add: NextJSAPI_getDevDependencies_def Let_def distinct_assign)

lemma distinct_NextJSAPI_getScripts: "distinct (map fst (NextJSAPI_getScripts config))"
  by (simp add: NextJSAPI_getScripts_def Let_def distinct_assign)

lemma integrated_generator:
  assumes "integratesWithFrontend b" and "getBackendGenerator b = Some g"
  shows "g = ConvexGenerator \<or> g = NextJSAPIGenerator"
  using assms by (cases b) (auto simp: layout_defs)

lemma integrated_distinct:
  assumes "g = ConvexGenerator \<or> g = NextJSAPIGenerator"
  shows "distinct (map fst (getDependencies cat g config))"
    and "distinct (map fst (getDevDependencies cat g config))"
    and "distinct (map fst (getScripts cat g config))"
  using assms
  by (auto simp: distinct_NextJSAPI_getDependencies distinct_NextJSAPI_getDevDependencies
      distinct_NextJSAPI_getScripts)

section \<open>The single-package branch\<close>

lemma single_project_manifest:
  assumes "getBackendGenerator (backend config) = Some g"
  shows "packageJsons (snd (generateSingleProject cat sys projectPath config True)) =
     [generateSingleProject_merge cat g config
        (readJSON sys (path_join sys [projectPath, ''package.json'']))]"
  using assms
  by (simp add: generateSingleProject_def Let_def io_defs installDependencies_def
      has_getDependencies_def packageJsons_def
      split: option.splits prod.splits)

lemma single_project_no_backend:
  "packageJsons (snd (generateSingleProject cat sys projectPath config False)) = []"
  by (simp add: generateSingleProject_def Let_def io_defs installDependencies_def
      packageJsons_def split: option.splits prod.splits)

text \<open>
  C1. In the single-package branch with an integrated backend, one manifest is written
  back, and each of its fields dependencies, devDependencies and scripts is the frontend's
  mapping overridden by the backend's: a key holds the backend's value when the backend's
  mapping has it (so every backend key is present, and it wins where both have the key), and
  the frontend's value otherwise (so a key of the frontend alone keeps its value).
  The frontend's mappings are those of the manifest read from package.json; their keys are
  distinct, as those of any object.
\<close>

theorem merge_right_biased:
  assumes integrated: "integratesWithFrontend (backend config)"
      and generator: "getBackendGenerator (backend config) = Some g"
      and frontend: "packageJson = readJSON sys (path_join sys [projectPath, ''package.json''])"
      and keys: "distinct_keys (dependencies packageJson)"
                "distinct_keys (devDependencies packageJson)"
                "distinct_keys (scripts packageJson)"
  shows "\<exists>m. packageJsons
               (snd (generateSingleProject cat sys projectPath config
                       (integratesWithFrontend (backend config)))) = [m]
     \<and> (\<forall>k. lookup (dependencies m) k =
              (case map_of (getDependencies cat g config) k of
                 Some v \<Rightarrow> Some v | None \<Rightarrow> lookup (dependencies packageJson) k))
     \<and> (\<forall>k. lookup (devDependencies m) k =
              (case map_of (getDevDependencies cat g config) k of
                 Some v \<Rightarrow> Some v | None \<Rightarrow> lookup (devDependencies packageJson) k))
     \<and> (\<forall>k. lookup (scripts m) k =
              (case map_of (getScripts cat g config) k of
                 Some v \<Rightarrow> Some v | None \<Rightarrow> lookup (scripts packageJson) k))"
proof -
  from integrated generator have g: "g = ConvexGenerator \<or> g = NextJSAPIGenerator"
    by (rule integrated_generator)
  let ?m = "generateSingleProject_merge cat g config packageJson"
  have "packageJsons
          (snd (generateSingleProject cat sys projectPath config
                  (integratesWithFrontend (backend config)))) = [?m]"
    using integrated generator frontend by (simp add: single_project_manifest)
  moreover have "lookup (dependencies ?m) k =
      (case map_of (getDependencies cat g config) k of
         Some v \<Rightarrow> Some v | None \<Rightarrow> lookup (dependencies packageJson) k)" for k
    using keys(1) integrated_distinct(1) [OF g]
    by (simp add: generateSingleProject_merge_def Let_def has_getScripts_def map_of_spread)
  moreover have "lookup (devDependencies ?m) k =
      (case map_of (getDevDependencies cat g config) k of
         Some v \<Rightarrow> Some v | None \<Rightarrow> lookup (devDependencies packageJson) k)" for k
    using keys(2) integrated_distinct(2) [OF g]
    by (simp add: generateSingleProject_merge_def Let_def has_getScripts_def map_of_spread)
  moreover have "lookup (scripts ?m) k =
      (case map_of (getScripts cat g config) k of
         Some v \<Rightarrow> Some v | None \<Rightarrow> lookup (scripts packageJson) k)" for k
    using keys(3) integrated_distinct(3) [OF g]
    by (simp add: generateSingleProject_merge_def Let_def has_getScripts_def map_of_spread)
  ultimately show ?thesis by blast
qed

theorem merge_right_biased_witness:
  "integratesWithFrontend
     (backend (example_config\<lparr>framework := Next, backend := NextjsBuiltin,
                               database := Sqlite, orm := Drizzle\<rparr>))
   \<and> distinct_keys (dependencies (readJSON example_sys ''/home/dev/my-app/package.json''))
   \<and> distinct_keys (devDependencies (readJSON example_sys ''/home/dev/my-app/package.json''))
   \<and> distinct_keys (scripts (readJSON example_sys ''/home/dev/my-app/package.json''))
   \<and> (\<exists>m. packageJsons
              (snd (generateSingleProject example_catalog example_sys ''/home/dev/my-app''
                 (example_config\<lparr>framework := Next, backend := NextjsBuiltin,
                                  database := Sqlite, orm := Drizzle\<rparr>)
                 True)) = [m]
        \<and> lookup (dependencies m) ''next'' = Some ''^15.0.0''
        \<and> lookup (dependencies m) ''zod'' = Some ''^3.23.0''
        \<and> lookup (dependencies m) ''drizzle-orm'' = Some ''^0.36.0''
        \<and> lookup (devDependencies m) ''drizzle-kit'' = Some ''^0.28.0''
        \<and> lookup (scripts m) ''dev'' = Some ''next dev''
        \<and> lookup (scripts m) ''db:push'' = Some ''drizzle-kit push'')"
proof -
  let ?cfg = "example_config\<lparr>framework := Next, backend := NextjsBuiltin,
                             database := Sqlite, orm := Drizzle\<rparr>"
  let ?pj = "readJSON example_sys (path_join example_sys [''/home/dev/my-app'', ''package.json''])"
  have i: "integratesWithFrontend (backend ?cfg)"
    by (simp add: example_config_def layout_defs)
  have g: "getBackendGenerator (backend ?cfg) = Some NextJSAPIGenerator"
    by (simp add: example_config_def)
  have k: "distinct_keys (dependencies ?pj)" "distinct_keys (devDependencies ?pj)"
    "distinct_keys (scripts ?pj)"
    by (simp_all add: example_sys_def)
  from merge_right_biased [OF i g refl k, of example_catalog]
  obtain m where
    m: "packageJsons (snd (generateSingleProject example_catalog example_sys
          ''/home/dev/my-app'' ?cfg (integratesWithFrontend (backend ?cfg)))) = [m]"
    and deps: "\<And>k. lookup (dependencies m) k =
       (case map_of (getDependencies example_catalog NextJSAPIGenerator ?cfg) k of
          Some v \<Rightarrow> Some v | None \<Rightarrow> lookup (dependencies ?pj) k)"
    and dev: "\<And>k. lookup (devDependencies m) k =
       (case map_of (getDevDependencies example_catalog NextJSAPIGenerator ?cfg) k of
          Some v \<Rightarrow> Some v | None \<Rightarrow> lookup (devDependencies ?pj) k)"
    and scr: "\<And>k. lookup (scripts m) k =
       (case map_of (getScripts example_catalog NextJSAPIGenerator ?cfg) k of
          Some v \<Rightarrow> Some v | None \<Rightarrow> lookup (scripts ?pj) k)"
    by blast
  have "lookup (dependencies m) ''next'' = Some ''^15.0.0''"
    "lookup (dependencies m) ''zod'' = Some ''^3.23.0''"
    "lookup (dependencies m) ''drizzle-orm'' = Some ''^0.36.0''"
    by (simp_all add: deps NextJSAPI_getDependencies_def example_config_def example_sys_def
        assign_def)
  moreover have "lookup (devDependencies m) ''drizzle-kit'' = Some ''^0.28.0''"
    by (simp add: dev NextJSAPI_getDevDependencies_def example_config_def example_sys_def
        assign_def)
  moreover have "lookup (scripts m) ''dev'' = Some ''next dev''"
    "lookup (scripts m) ''db:push'' = Some ''drizzle-kit push''"
    by (simp_all add: scr NextJSAPI_getScripts_def example_config_def example_sys_def
        assign_def)
  moreover have "packageJsons (snd (generateSingleProject example_catalog example_sys
          ''/home/dev/my-app'' ?cfg True)) = [m]"
    using m i by simp
  ultimately show ?thesis using i k by (simp add: example_sys_def)
qed

section \<open>Version control\<close>

lemma initGit_trace:
  "snd (initGit sys dir) =
     Execa ''git'' [''init''] (Some dir) #
       (if execa_ok sys ''git'' [''init''] (Some dir) then
          Execa ''git'' [''add'', ''-A''] (Some dir) #
            (if execa_ok sys ''git'' [''add'', ''-A''] (Some dir) then
               [Execa ''git'' [''commit'', ''-m'', ''Initial commit from create-mrn-app'']
                  (Some dir)]
             else [])
        else [])"
  by (simp add: initGit_def io_defs)

lemma initGit_returns: "fst (initGit sys dir) = Inr ()"
  by (simp add: initGit_def io_defs)

lemma fst_installDependencies:
  "fst (installDependencies sys dir pm) =
     (if execa_ok sys (fst (getInstallCommand pm)) (snd (getInstallCommand pm)) (Some dir)
      then Inr () else Inl (ExecaFailed (fst (getInstallCommand pm)) (snd (getInstallCommand pm))))"
  by (simp add: installDependencies_def io_defs split: prod.splits)

lemma getInstallCommand_not_git: "fst (getInstallCommand pm) \<noteq> ''git''"
  by (cases pm) simp_all

lemma fst_generateMonorepoProject:
  "fst (generateMonorepoProject sys projectPath config) =
     fst (installDependencies sys projectPath (packageManager config))"
  by (simp add: generateMonorepoProject_def Let_def emit_def io_return_def
      createRootPackageJson_def createPnpmWorkspace_def has_generate_def fst_io_seq
      split: option.splits sum.splits)

lemma fst_generateSingleProject:
  "fst (generateSingleProject cat sys projectPath config i) =
     fst (installDependencies sys projectPath (packageManager config))"
  by (simp add: generateSingleProject_def Let_def emit_def io_return_def
      has_getDependencies_def fst_io_seq
      split: option.splits sum.splits)

lemma fst_generate_confirm:
  "fst (generate_confirm sys user config projectPath) =
     (if existsSync sys projectPath
         \<and> filter (\<lambda>f. \<not> startsWith f ''.'' \<or> f = ''.env'') (readdirSync sys projectPath) \<noteq> []
         \<and> ans_confirm user \<noteq> Answer True
      then Inl CANCELLED else Inr ())"
  by (simp add: generate_confirm_def Let_def emit_def io_return_def io_throw_def
      split: answer.splits)

lemma fst_generate_createDirectory:
  "fst (generate_createDirectory isCurrentDir projectPath) = Inr ()"
  by (simp add: generate_createDirectory_def emit_def io_return_def)

lemma fst_generate_initGit: "fst (generate_initGit sys projectPath) = Inr ()"
  by (simp add: generate_initGit_def Let_def emit_def io_return_def fst_io_seq
      initGit_returns)

lemma fst_generate:
  "fst (generate cat sys user config) =
     (let projectPath = (if projectName config = ''.'' then cwd sys
                         else path_resolve sys (cwd sys) (projectName config))
      in if fst (generate_confirm sys user config projectPath) = Inl CANCELLED
         then Inl CANCELLED
         else fst (installDependencies sys projectPath (packageManager config)))"
  by (simp add: generate_def Let_def emit_def fst_io_seq fst_generate_confirm
      fst_generate_createDirectory fst_generate_initGit
      fst_generateMonorepoProject fst_generateSingleProject
      split: sum.splits)

text \<open>
  C9. \<^verbatim>\<open>initGit\<close> returns normally for every directory, whatever the git commands do; a failure
  of init, add or commit leaves no trace other than the commands that were run (nothing is
  logged); and the outcome of \<^verbatim>\<open>generate\<close> is the same whichever way the git commands end.
\<close>

theorem initGit_never_throws:
  "fst (initGit sys dir) = Inr ()
   \<and> (\<forall>ev \<in> set (snd (initGit sys dir)). \<exists>args. ev = Execa ''git'' args (Some dir))
   \<and> fst (generate cat
            (sys\<lparr>execa_ok := \<lambda>cmd args d. if cmd = ''git'' then git args d
                                          else execa_ok sys cmd args d\<rparr>) user config)
       = fst (generate cat sys user config)"
proof (intro conjI)
  show "fst (initGit sys dir) = Inr ()"
    by (rule initGit_returns)
  show "\<forall>ev \<in> set (snd (initGit sys dir)). \<exists>args. ev = Execa ''git'' args (Some dir)"
    by (auto simp: initGit_trace)
  show "fst (generate cat
            (sys\<lparr>execa_ok := \<lambda>cmd args d. if cmd = ''git'' then git args d
                                          else execa_ok sys cmd args d\<rparr>) user config)
       = fst (generate cat sys user config)"
    by (simp add: fst_generate fst_generate_confirm fst_installDependencies
        getInstallCommand_not_git Let_def)
qed

theorem initGit_never_throws_witness:
  "fst (initGit example_sys_no_git ''/home/dev/my-app'') = Inr ()
   \<and> snd (initGit example_sys_no_git ''/home/dev/my-app'') =
       [Execa ''git'' [''init''] (Some ''/home/dev/my-app'')]
   \<and> fst (generate example_catalog example_sys_no_git example_user example_config)
       = fst (generate example_catalog example_sys example_user example_config)
   \<and> fst (generate example_catalog example_sys example_user example_config) = Inr ()"
proof -
  have same: "example_sys\<lparr>execa_ok := \<lambda>cmd args d. if cmd = ''git'' then False
                 else execa_ok example_sys cmd args d\<rparr> = example_sys_no_git"
    by (simp add: example_sys_no_git_def example_sys_def)
  have "fst (generate example_catalog example_sys example_user example_config) = Inr ()"
    by (simp add: fst_generate fst_generate_confirm fst_installDependencies
        example_config_def example_sys_def Let_def)
  moreover have "snd (initGit example_sys_no_git ''/home/dev/my-app'') =
      [Execa ''git'' [''init''] (Some ''/home/dev/my-app'')]"
    by (simp add: initGit_trace example_sys_no_git_def example_sys_def)
  ultimately show ?thesis
    using initGit_never_throws
      [of example_sys_no_git "''/home/dev/my-app''" example_catalog "\<lambda>args d. False"
         example_user example_config]
      initGit_never_throws
      [of example_sys "''/home/dev/my-app''" example_catalog "\<lambda>args d. False"
         example_user example_config]
    by (simp add: same)
qed

section \<open>Configuration resolution\<close>

subsection \<open>Traces\<close>

lemma overrideNotices_simps [simp]:
  "overrideNotices [] = []"
  "overrideNotices (ev # tr) =
     (if isOverrideNotice ev then ev # overrideNotices tr else overrideNotices tr)"
  "overrideNotices (tr @ tr') = overrideNotices tr @ overrideNotices tr'"
  by (simp_all add: overrideNotices_def)

lemma ormPrompts_simps [simp]:
  "ormPrompts [] = []"
  "ormPrompts (ev # tr) = (if isOrmPrompt ev then ev # ormPrompts tr else ormPrompts tr)"
  "ormPrompts (tr @ tr') = ormPrompts tr @ ormPrompts tr'"
  by (simp_all add: ormPrompts_def)

lemma isOverrideNotice_simps [simp]:
  "\<not> isOverrideNotice (SelectPrompt m os)"
  "\<not> isOverrideNotice (TextPrompt m)"
  "\<not> isOverrideNotice (MultiselectPrompt m os)"
  "\<not> isOverrideNotice (Execa c as d)"
  "\<not> isOverrideNotice (LogWarn m)"
  "\<not> isOverrideNotice (Intro m)"
  "\<not> isOverrideNotice (Outro m)"
  by (simp_all add: isOverrideNotice_def)

lemma isOrmPrompt_simps [simp]:
  "isOrmPrompt (SelectPrompt m os) \<longleftrightarrow> m = ''Which ORM would you like to use?''"
  "\<not> isOrmPrompt (TextPrompt m)"
  "\<not> isOrmPrompt (MultiselectPrompt m os)"
  "\<not> isOrmPrompt (Execa c as d)"
  "\<not> isOrmPrompt (LogWarn m)"
  "\<not> isOrmPrompt (LogInfo m)"
  "\<not> isOrmPrompt (Intro m)"
  "\<not> isOrmPrompt (Outro m)"
  by (simp_all add: isOrmPrompt_def)

lemma io_bind_eq_Inr:
  "io_bind m f = (Inr y, tr) \<longleftrightarrow>
     (\<exists>x t2. fst m = Inr x \<and> f x = (Inr y, t2) \<and> tr = snd m @ t2)"
  by (cases m; cases "fst m") (auto simp: io_bind_def split: prod.splits sum.splits)

lemma io_seq_eq_Inr:
  "io_seq m n = (Inr y, tr) \<longleftrightarrow>
     (\<exists>t2. fst m = Inr () \<and> n = (Inr y, t2) \<and> tr = snd m @ t2)"
  by (simp add: io_seq_def io_bind_eq_Inr)

subsection \<open>Prompts\<close>

lemma or_prompt_select:
  "or_prompt opt (select msg opts a) =
     (case opt of
        Some v \<Rightarrow> (Inr v, [])
      | None \<Rightarrow> (case a of Cancel \<Rightarrow> (Inl CANCELLED, [SelectPrompt msg opts])
                 | Answer v \<Rightarrow> (Inr v, [SelectPrompt msg opts])))"
  by (simp add: or_prompt_def select_def isCancel_def io_defs
      split: option.splits answer.splits)

lemma or_prompt_text:
  "or_prompt opt (text_prompt msg a) =
     (case opt of
        Some v \<Rightarrow> (Inr v, [])
      | None \<Rightarrow> (case a of Cancel \<Rightarrow> (Inl CANCELLED, [TextPrompt msg])
                 | Answer v \<Rightarrow> (Inr v, [TextPrompt msg])))"
  by (simp add: or_prompt_def text_prompt_def isCancel_def io_defs
      split: option.splits answer.splits)

lemma multiselect_eq:
  "multiselect msg opts a =
     (case a of Cancel \<Rightarrow> (Inl CANCELLED, [MultiselectPrompt msg opts])
      | Answer v \<Rightarrow> (Inr v, [MultiselectPrompt msg opts]))"
  by (simp add: multiselect_def isCancel_def io_defs split: answer.splits)

lemma checkBunInstalled_eq:
  "checkBunInstalled sys =
     (Inr (execa_ok sys ''bun'' [''--version''] None), [Execa ''bun'' [''--version''] None])"
  by (simp add: checkBunInstalled_def io_defs)

subsection \<open>What each section of \<^verbatim>\<open>runPrompts\<close> logs and asks\<close>

lemmas plain_sections =
  runPrompts_projectName_def runPrompts_framework_def runPrompts_backend_def
  runPrompts_auth_def runPrompts_styling_def runPrompts_extras_def

lemma plain_sections_override:
  "overrideNotices (snd (runPrompts_projectName user options)) = []"
  "overrideNotices (snd (runPrompts_framework user options)) = []"
  "overrideNotices (snd (runPrompts_backend user options fw)) = []"
  "overrideNotices (snd (runPrompts_auth user options fw)) = []"
  "overrideNotices (snd (runPrompts_styling user options)) = []"
  "overrideNotices (snd (runPrompts_extras user)) = []"
  by (simp_all add: plain_sections or_prompt_select or_prompt_text multiselect_eq Let_def
      del: filter.simps split: option.splits answer.splits)

lemma plain_sections_orm:
  "ormPrompts (snd (runPrompts_projectName user options)) = []"
  "ormPrompts (snd (runPrompts_framework user options)) = []"
  "ormPrompts (snd (runPrompts_backend user options fw)) = []"
  "ormPrompts (snd (runPrompts_auth user options fw)) = []"
  "ormPrompts (snd (runPrompts_styling user options)) = []"
  "ormPrompts (snd (runPrompts_extras user)) = []"
  by (simp_all add: plain_sections or_prompt_select or_prompt_text multiselect_eq Let_def
      del: filter.simps split: option.splits answer.splits)

lemma bunOnly_eq:
  "runPrompts_bunOnly sys b =
     (Inr (if b \<in> set BUN_ONLY_BACKENDS then Some Bun else None),
      if b \<in> set BUN_ONLY_BACKENDS then
        Execa ''bun'' [''--version''] None #
          (if execa_ok sys ''bun'' [''--version''] None then []
           else [LogWarn ''Elysia requires Bun runtime. Please install Bun: https://bun.sh'',
                 LogInfo ''Run: curl -fsSL https://bun.sh/install | bash''])
      else [])"
  by (simp add: runPrompts_bunOnly_def checkBunInstalled_eq io_defs)

lemma not_override_hint:
  "\<not> isOverrideNotice (LogInfo ''Run: curl -fsSL https://bun.sh/install | bash'')"
  by (simp add: isOverrideNotice_def overrideText_def)

lemma bunOnly_override: "overrideNotices (snd (runPrompts_bunOnly sys b)) = []"
  by (simp add: bunOnly_eq not_override_hint [simplified])

lemma bunOnly_orm: "ormPrompts (snd (runPrompts_bunOnly sys b)) = []"
  by (simp add: bunOnly_eq)

lemma runtime_eq:
  "runPrompts_runtime user options b f =
     (if b \<in> set RUNTIME_SELECTABLE_BACKENDS then
        (case opt_runtime options of
           Some r \<Rightarrow> (Inr (if r = RBun then Some Bun else f, Some r), [])
         | None \<Rightarrow>
            (case ans_runtime user of
               Cancel \<Rightarrow>
                 (Inl CANCELLED, [SelectPrompt ''Which runtime for Hono?'' [''node'', ''bun'']])
             | Answer r \<Rightarrow>
                 (Inr (if r = RBun then Some Bun else f, Some r),
                  [SelectPrompt ''Which runtime for Hono?'' [''node'', ''bun'']])))
      else (Inr (f, None), []))"
  by (simp add: runPrompts_runtime_def or_prompt_select io_defs
      split: option.splits answer.splits)

lemma runtime_override: "overrideNotices (snd (runPrompts_runtime user options b f)) = []"
  by (simp add: runtime_eq split: option.splits answer.splits)

lemma runtime_orm: "ormPrompts (snd (runPrompts_runtime user options b f)) = []"
  by (simp add: runtime_eq split: option.splits answer.splits)

lemma not_override_orm:
  "\<not> isOverrideNotice (LogInfo (''Using '' @ ORM_str o' @ '' for '' @ Database_str d))"
  by (cases o') (simp_all add: isOverrideNotice_def overrideText_def)

lemma not_override_convex:
  "\<not> isOverrideNotice
        (LogInfo ''Convex includes its own database - skipping database selection'')"
  by (simp add: isOverrideNotice_def overrideText_def)

lemma database_override:
  "overrideNotices (snd (runPrompts_database user options fw b)) = []"
  by (simp add: runPrompts_database_def or_prompt_select io_defs Let_def
      not_override_orm [simplified] not_override_convex [simplified]
      del: filter.simps split: option.splits answer.splits)

lemma packageManager_eq:
  "runPrompts_packageManager user options b f =
     (case f of
        Some forced \<Rightarrow> (Inr forced, [LogInfo (overrideText forced b)])
      | None \<Rightarrow>
          or_prompt (opt_packageManager options)
            (select ''Which package manager would you like to use?''
               [''pnpm'', ''npm'', ''bun''] (ans_packageManager user)))"
  by (simp add: runPrompts_packageManager_def overrideText_def io_defs split: option.splits)

lemma isOverrideNotice_overrideText: "isOverrideNotice (LogInfo (overrideText pm b))"
  unfolding isOverrideNotice_def by (cases pm; cases b) simp_all

lemma packageManager_override:
  "overrideNotices (snd (runPrompts_packageManager user options b f)) =
     (case f of Some forced \<Rightarrow> [LogInfo (overrideText forced b)] | None \<Rightarrow> [])"
  by (simp add: packageManager_eq or_prompt_select isOverrideNotice_overrideText
      split: option.splits answer.splits)

lemma packageManager_orm:
  "ormPrompts (snd (runPrompts_packageManager user options b f)) = []"
  by (simp add: packageManager_eq or_prompt_select split: option.splits answer.splits)

subsection \<open>A successful run, section by section\<close>

lemma runPrompts_Inr:
  assumes "runPrompts sys user options = (Inr config, tr)"
  obtains force0 force1 extras'
  where "fst (runPrompts_projectName user options) = Inr (projectName config)"
    and "fst (runPrompts_framework user options) = Inr (framework config)"
    and "fst (runPrompts_backend user options (framework config)) = Inr (backend config)"
    and "fst (runPrompts_bunOnly sys (backend config)) = Inr force0"
    and "fst (runPrompts_runtime user options (backend config) force0) =
           Inr (force1, runtime config)"
    and "fst (runPrompts_database user options (framework config) (backend config)) =
           Inr (database config, orm config)"
    and "fst (runPrompts_auth user options (framework config)) = Inr (auth config)"
    and "fst (runPrompts_styling user options) = Inr (styling config)"
    and "fst (runPrompts_packageManager user options (backend config) force1) =
           Inr (packageManager config)"
    and "fst (runPrompts_extras user) = Inr extras'"
    and "tr = Intro '' create-mrn-app '' #
              snd (runPrompts_projectName user options) @
              snd (runPrompts_framework user options) @
              snd (runPrompts_backend user options (framework config)) @
              snd (runPrompts_bunOnly sys (backend config)) @
              snd (runPrompts_runtime user options (backend config) force0) @
              snd (runPrompts_database user options (framework config) (backend config)) @
              snd (runPrompts_auth user options (framework config)) @
              snd (runPrompts_styling user options) @
              snd (runPrompts_packageManager user options (backend config) force1) @
              snd (runPrompts_extras user) @
              [Outro ''Configuration complete! Creating your project...'']"
  using assms unfolding runPrompts_def
  by (auto simp: io_bind_eq_Inr io_seq_eq_Inr io_defs
      simp del: io_seq_Inr io_bind_Inr)

text \<open>
  C3. When resolution returns a configuration whose backend mandates a package manager
  (is Bun-only: elysia), the configuration's package manager is bun, whatever package
  manager the options or the user's answers name, and the run logs exactly one
  informational notice about a forced package manager: the one naming bun and the
  backend. (Other notices may be logged beside it: the hint to install Bun when it is
  missing, the automatically selected ORM.)
\<close>

theorem bun_only_backend_forces_bun:
  assumes run: "runPrompts sys user options = (Inr config, tr)"
      and bun: "backend config \<in> set BUN_ONLY_BACKENDS"
  shows "packageManager config = Bun
         \<and> overrideNotices tr = [LogInfo (overrideText Bun (backend config))]"
proof -
  from run obtain force0 force1 and extras' :: "string list"
    where f0: "fst (runPrompts_bunOnly sys (backend config)) = Inr force0"
      and f1: "fst (runPrompts_runtime user options (backend config) force0) =
                 Inr (force1, runtime config)"
      and pm: "fst (runPrompts_packageManager user options (backend config) force1) =
                 Inr (packageManager config)"
      and tr: "tr = Intro '' create-mrn-app '' #
              snd (runPrompts_projectName user options) @
              snd (runPrompts_framework user options) @
              snd (runPrompts_backend user options (framework config)) @
              snd (runPrompts_bunOnly sys (backend config)) @
              snd (runPrompts_runtime user options (backend config) force0) @
              snd (runPrompts_database user options (framework config) (backend config)) @
              snd (runPrompts_auth user options (framework config)) @
              snd (runPrompts_styling user options) @
              snd (runPrompts_packageManager user options (backend config) force1) @
              snd (runPrompts_extras user) @
              [Outro ''Configuration complete! Creating your project...'']"
    by (rule runPrompts_Inr)
  from bun have elysia: "backend config = Elysia"
    by (simp add: BUN_ONLY_BACKENDS_def)
  from f0 bun have "force0 = Some Bun"
    by (simp add: bunOnly_eq)
  with f1 elysia have force1: "force1 = Some Bun"
    by (simp add: runtime_eq RUNTIME_SELECTABLE_BACKENDS_def)
  with pm have "packageManager config = Bun"
    by (simp add: packageManager_eq)
  moreover have "overrideNotices tr = [LogInfo (overrideText Bun (backend config))]"
    by (simp add: tr plain_sections_override bunOnly_override runtime_override
        database_override packageManager_override force1)
  ultimately show ?thesis by simp
qed

lemma run_elysia:
  "runPrompts example_sys example_user example_options_elysia =
     (Inr \<lparr>projectName = ''my-app'', framework = React, backend = Elysia, database = DNone,
           orm = ONone, auth = ANone, styling = Tailwind, packageManager = Bun,
           runtime = None,
           extras = \<lparr>typescript = True, eslint = True, prettier = True, testing = False,
                     playwright = False, docker = False\<rparr>\<rparr>,
      [Intro '' create-mrn-app '',
       TextPrompt ''What is your project name?'',
       Execa ''bun'' [''--version''] None,
       SelectPrompt ''Which database would you like to use?''
         [''supabase'', ''neon'', ''planetscale'', ''mongodb'', ''sqlite'', ''turso'', ''none''],
       SelectPrompt ''Which authentication would you like to use?''
         [''clerk'', ''supabase-auth'', ''better-auth'', ''none''],
       SelectPrompt ''Which styling solution would you like to use?''
         [''tailwind'', ''tailwind-shadcn'', ''css-modules'', ''vanilla''],
       LogInfo ''Using bun as package manager (required by elysia)'',
       MultiselectPrompt ''Select additional features:''
         [''typescript'', ''eslint'', ''testing'', ''playwright'', ''docker''],
       Outro ''Configuration complete! Creating your project...''])"
  by (simp add: runPrompts_def plain_sections bunOnly_eq runtime_eq runPrompts_database_def
      packageManager_eq or_prompt_select or_prompt_text multiselect_eq io_defs Let_def
      example_sys_def example_user_def example_options_elysia_def no_options_def
      truthy_def BUN_ONLY_BACKENDS_def RUNTIME_SELECTABLE_BACKENDS_def SKIP_DB_BACKENDS_def
      overrideText_def)


theorem bun_only_backend_forces_bun_witness:
  "opt_packageManager example_options_elysia = Some Npm
   \<and> fst (runPrompts example_sys example_user example_options_elysia) \<noteq> Inl CANCELLED
   \<and> map_sum id backend (fst (runPrompts example_sys example_user example_options_elysia))
       = Inr Elysia
   \<and> map_sum id packageManager
        (fst (runPrompts example_sys example_user example_options_elysia)) = Inr Bun
   \<and> overrideNotices (snd (runPrompts example_sys example_user example_options_elysia))
       = [LogInfo ''Using bun as package manager (required by elysia)'']"
proof -
  have "opt_packageManager example_options_elysia = Some Npm"
    by (simp add: example_options_elysia_def no_options_def)
  then show ?thesis
    using bun_only_backend_forces_bun [OF run_elysia]
    by (simp add: run_elysia BUN_ONLY_BACKENDS_def overrideText_def)
qed

subsection \<open>Automatic selection of the ORM\<close>











subsection \<open>Next.js with its built-in backend and SQLite\<close>

lemma database_sqlite:
  assumes "opt_database options = Some Sqlite" and "opt_orm options = None"
      and "b \<notin> set SKIP_DB_BACKENDS"
      and "fst (runPrompts_database user options fw b) = Inr (d, o')"
  shows "d = Sqlite" and "ans_orm user = Answer o'"
    and "snd (runPrompts_database user options fw b) =
           [SelectPrompt ''Which ORM would you like to use?'' [''prisma'', ''drizzle'']]"
  using assms
  by (auto simp: runPrompts_database_def or_prompt_select io_defs Let_def
      split: option.splits answer.splits if_splits)

lemma backend_dependencies_win:
  assumes "(k, v) \<in> set (getDependencies cat NextJSAPIGenerator config)"
  shows "lookup
           (dependencies (generateSingleProject_merge cat NextJSAPIGenerator config packageJson))
           k = Some v"
  using assms distinct_NextJSAPI_getDependencies [of config]
  by (simp add: generateSingleProject_merge_def Let_def has_getScripts_def
      map_of_spread_backend)

text \<open>
  C5, as the code has it. For the selection of Next.js, its built-in backend and SQLite with
  no ORM given, a run of the resolution that returns has asked for the ORM once, offering
  prisma and drizzle, and the configuration's ORM is the user's answer; the layout is
  integrated; and the manifest that the single-package branch writes back holds, under
  dependencies, every key the backend generator declares with the backend's value.
\<close>

theorem nextjs_builtin_sqlite_scenario:
  assumes run: "runPrompts sys user options = (Inr config, tr)"
      and selection: "opt_framework options = Some Next"
                     "opt_backend options = Some NextjsBuiltin"
                     "opt_database options = Some Sqlite"
                     "opt_orm options = None"
  shows "ormPrompts tr =
           [SelectPrompt ''Which ORM would you like to use?'' [''prisma'', ''drizzle'']]
         \<and> ans_orm user = Answer (orm config)
         \<and> layoutOf config = Integrated
         \<and> (\<exists>m. packageJsons
                    (snd (generateSingleProject cat sys' projectPath config
                            (integratesWithFrontend (backend config)))) = [m]
              \<and> (\<forall>k v. (k, v) \<in> set (getDependencies cat NextJSAPIGenerator config)
                     \<longrightarrow> lookup (dependencies m) k = Some v))"
proof -
  from run obtain force0 force1 and extras' :: "string list"
    where fw: "fst (runPrompts_framework user options) = Inr (framework config)"
      and be: "fst (runPrompts_backend user options (framework config)) =
                 Inr (backend config)"
      and db: "fst (runPrompts_database user options (framework config) (backend config)) =
                 Inr (database config, orm config)"
      and tr: "tr = Intro '' create-mrn-app '' #
              snd (runPrompts_projectName user options) @
              snd (runPrompts_framework user options) @
              snd (runPrompts_backend user options (framework config)) @
              snd (runPrompts_bunOnly sys (backend config)) @
              snd (runPrompts_runtime user options (backend config) force0) @
              snd (runPrompts_database user options (framework config) (backend config)) @
              snd (runPrompts_auth user options (framework config)) @
              snd (runPrompts_styling user options) @
              snd (runPrompts_packageManager user options (backend config) force1) @
              snd (runPrompts_extras user) @
              [Outro ''Configuration complete! Creating your project...'']"
    by (rule runPrompts_Inr)
  from be selection(2) have b: "backend config = NextjsBuiltin"
    by (simp add: runPrompts_backend_def or_prompt_select Let_def del: filter.simps)
  then have skip: "backend config \<notin> set SKIP_DB_BACKENDS"
    by (simp add: SKIP_DB_BACKENDS_def)
  note s = database_sqlite [OF selection(3) selection(4) skip db]
  have "ormPrompts tr =
          [SelectPrompt ''Which ORM would you like to use?'' [''prisma'', ''drizzle'']]"
    by (simp add: tr s(3) plain_sections_orm bunOnly_orm runtime_orm packageManager_orm)
  moreover have "layoutOf config = Integrated"
    by (simp add: layoutOf_def layout_defs b)
  moreover have i: "integratesWithFrontend (backend config)"
    by (simp add: layout_defs b)
  moreover have
    "packageJsons (snd (generateSingleProject cat sys' projectPath config True)) =
       [generateSingleProject_merge cat NextJSAPIGenerator config
          (readJSON sys' (path_join sys' [projectPath, ''package.json'']))]"
    by (rule single_project_manifest) (simp add: b)
  ultimately show ?thesis
    using s(2) backend_dependencies_win by simp
qed

lemma run_sqlite:
  "runPrompts example_sys example_user example_options_sqlite =
     (Inr \<lparr>projectName = ''my-app'', framework = Next, backend = NextjsBuiltin,
           database = Sqlite, orm = Drizzle, auth = ANone, styling = Tailwind,
           packageManager = Npm, runtime = None,
           extras = \<lparr>typescript = True, eslint = True, prettier = True, testing = False,
                     playwright = False, docker = False\<rparr>\<rparr>,
      [Intro '' create-mrn-app '',
       TextPrompt ''What is your project name?'',
       SelectPrompt ''Which ORM would you like to use?'' [''prisma'', ''drizzle''],
       SelectPrompt ''Which authentication would you like to use?''
         [''next-auth'', ''clerk'', ''supabase-auth'', ''better-auth'', ''none''],
       SelectPrompt ''Which styling solution would you like to use?''
         [''tailwind'', ''tailwind-shadcn'', ''css-modules'', ''vanilla''],
       SelectPrompt ''Which package manager would you like to use?''
         [''pnpm'', ''npm'', ''bun''],
       MultiselectPrompt ''Select additional features:''
         [''typescript'', ''eslint'', ''testing'', ''playwright'', ''docker''],
       Outro ''Configuration complete! Creating your project...''])"
  by (simp add: runPrompts_def plain_sections bunOnly_eq runtime_eq runPrompts_database_def
      packageManager_eq or_prompt_select or_prompt_text multiselect_eq io_defs Let_def
      example_sys_def example_user_def example_options_sqlite_def no_options_def
      truthy_def BUN_ONLY_BACKENDS_def RUNTIME_SELECTABLE_BACKENDS_def SKIP_DB_BACKENDS_def
      overrideText_def)

lemma run_sqlite_prisma:
  "map_sum id orm
     (fst (runPrompts example_sys (example_user\<lparr>ans_orm := Answer Prisma\<rparr>)
             example_options_sqlite)) = Inr Prisma"
  by (simp add: runPrompts_def plain_sections bunOnly_eq runtime_eq runPrompts_database_def
      packageManager_eq or_prompt_select or_prompt_text multiselect_eq io_defs Let_def
      example_sys_def example_user_def example_options_sqlite_def no_options_def
      truthy_def BUN_ONLY_BACKENDS_def RUNTIME_SELECTABLE_BACKENDS_def SKIP_DB_BACKENDS_def
      overrideText_def)

lemma sqlite_selection:
  "opt_framework example_options_sqlite = Some Next"
  "opt_backend example_options_sqlite = Some NextjsBuiltin"
  "opt_database example_options_sqlite = Some Sqlite"
  "opt_orm example_options_sqlite = None"
  by (simp_all add: example_options_sqlite_def no_options_def)

theorem nextjs_builtin_sqlite_scenario_witness:
  "opt_framework example_options_sqlite = Some Next
   \<and> opt_backend example_options_sqlite = Some NextjsBuiltin
   \<and> opt_database example_options_sqlite = Some Sqlite
   \<and> opt_orm example_options_sqlite = None
   \<and> ormPrompts (snd (runPrompts example_sys example_user example_options_sqlite)) =
       [SelectPrompt ''Which ORM would you like to use?'' [''prisma'', ''drizzle'']]
   \<and> map_sum id orm (fst (runPrompts example_sys example_user example_options_sqlite))
       = Inr Drizzle
   \<and> ans_orm example_user = Answer Drizzle
   \<and> map_sum id layoutOf (fst (runPrompts example_sys example_user example_options_sqlite))
       = Inr Integrated"
  using nextjs_builtin_sqlite_scenario
    [OF run_sqlite sqlite_selection, of example_catalog example_sys "''/home/dev/my-app''"]
  by (simp add: run_sqlite sqlite_selection)

text \<open>
  The sentence of the specification about this selection fails on the code: SQLite's
  allow-list holds two ORMs other than "none", the run asks the user for the ORM, and the
  configuration's ORM is whichever of the two the user answers.
\<close>

theorem nextjs_builtin_sqlite_counterexample:
  "opt_framework example_options_sqlite = Some Next
   \<and> opt_backend example_options_sqlite = Some NextjsBuiltin
   \<and> opt_database example_options_sqlite = Some Sqlite
   \<and> opt_orm example_options_sqlite = None
   \<and> DATABASE_ORM_COMPAT Sqlite = [Prisma, Drizzle]
   \<and> ormPrompts (snd (runPrompts example_sys example_user example_options_sqlite)) =
       [SelectPrompt ''Which ORM would you like to use?'' [''prisma'', ''drizzle'']]
   \<and> map_sum id orm (fst (runPrompts example_sys example_user example_options_sqlite))
       = Inr Drizzle
   \<and> map_sum id orm
        (fst (runPrompts example_sys (example_user\<lparr>ans_orm := Answer Prisma\<rparr>)
                example_options_sqlite)) = Inr Prisma"
  by (simp add: run_sqlite run_sqlite_prisma sqlite_selection)

subsection \<open>Resolution returns unless a prompt is cancelled\<close>

lemma io_bind_returns:
  assumes "fst m = Inr x" and "fst (f x) = Inr y"
  shows "fst (io_bind m f) = Inr y"
  using assms by (cases m) simp

lemma or_prompt_select_returns:
  "a \<noteq> Cancel \<Longrightarrow> \<exists>v. fst (or_prompt opt (select msg opts a)) = Inr v"
  by (cases a; cases opt) (simp_all add: or_prompt_select)

lemma or_prompt_text_returns:
  "a \<noteq> Cancel \<Longrightarrow> \<exists>v. fst (or_prompt opt (text_prompt msg a)) = Inr v"
  by (cases a; cases opt) (simp_all add: or_prompt_text)

lemma database_returns:
  assumes "ans_database user \<noteq> Cancel" and "ans_orm user \<noteq> Cancel"
  shows "\<exists>v. fst (runPrompts_database user options fw b) = Inr v"
  using assms
  by (cases "ans_database user"; cases "ans_orm user")
     (simp_all add: runPrompts_database_def or_prompt_select io_defs Let_def
        del: filter.simps split: option.splits)

lemma runtime_returns:
  "ans_runtime user \<noteq> Cancel \<Longrightarrow>
     \<exists>v. fst (runPrompts_runtime user options b f) = Inr v"
  by (cases "ans_runtime user") (simp_all add: runtime_eq split: option.splits)

lemma packageManager_returns:
  "ans_packageManager user \<noteq> Cancel \<Longrightarrow>
     \<exists>v. fst (runPrompts_packageManager user options b f) = Inr v"
  by (cases "ans_packageManager user")
     (simp_all add: packageManager_eq or_prompt_select split: option.splits)

lemma extras_returns:
  "ans_extras user \<noteq> Cancel \<Longrightarrow> \<exists>v. fst (runPrompts_extras user) = Inr v"
  by (cases "ans_extras user") (simp_all add: runPrompts_extras_def multiselect_eq)

lemma runPrompts_returns:
  assumes "ans_projectName user \<noteq> Cancel" "ans_framework user \<noteq> Cancel"
    "ans_backend user \<noteq> Cancel" "ans_runtime user \<noteq> Cancel"
    "ans_database user \<noteq> Cancel" "ans_orm user \<noteq> Cancel" "ans_auth user \<noteq> Cancel"
    "ans_styling user \<noteq> Cancel" "ans_packageManager user \<noteq> Cancel"
    "ans_extras user \<noteq> Cancel"
  shows "\<exists>config. fst (runPrompts sys user options) = Inr config"
proof -
  obtain n where n: "fst (runPrompts_projectName user options) = Inr n"
    using or_prompt_text_returns [OF assms(1)] unfolding runPrompts_projectName_def
    by blast
  obtain fw where fw: "fst (runPrompts_framework user options) = Inr fw"
    using or_prompt_select_returns [OF assms(2)] unfolding runPrompts_framework_def by blast
  obtain b where b: "fst (runPrompts_backend user options fw) = Inr b"
    using or_prompt_select_returns [OF assms(3)] unfolding runPrompts_backend_def Let_def
    by blast
  obtain f0 where f0: "fst (runPrompts_bunOnly sys b) = Inr f0"
    by (simp add: bunOnly_eq)
  obtain f1 r where f1: "fst (runPrompts_runtime user options b f0) = Inr (f1, r)"
    using runtime_returns [OF assms(4)] by fastforce
  obtain d o' where d: "fst (runPrompts_database user options fw b) = Inr (d, o')"
    using database_returns [OF assms(5) assms(6)] by fastforce
  obtain a where a: "fst (runPrompts_auth user options fw) = Inr a"
    using or_prompt_select_returns [OF assms(7)] unfolding runPrompts_auth_def Let_def
    by blast
  obtain s where s: "fst (runPrompts_styling user options) = Inr s"
    using or_prompt_select_returns [OF assms(8)] unfolding runPrompts_styling_def by blast
  obtain pm where pm: "fst (runPrompts_packageManager user options b f1) = Inr pm"
    using packageManager_returns [OF assms(9)] by blast
  obtain e where e: "fst (runPrompts_extras user) = Inr e"
    using extras_returns [OF assms(10)] by blast
  show ?thesis
    unfolding runPrompts_def
    by (simp add: fst_io_seq emit_def io_return_def
        io_bind_returns [OF n] io_bind_returns [OF fw] io_bind_returns [OF b]
        io_bind_returns [OF f0] io_bind_returns [OF f1] io_bind_returns [OF d]
        io_bind_returns [OF a] io_bind_returns [OF s] io_bind_returns [OF pm]
        io_bind_returns [OF e])
qed

subsection \<open>Further facts about the resolved configuration\<close>

text \<open>
  A backend that skips the database step (convex, none) resolves the database and the ORM
  to "none", whatever database the options name.
\<close>

lemma skip_db_backend_no_database:
  assumes run: "runPrompts sys user options = (Inr config, tr)"
      and skip: "backend config \<in> set SKIP_DB_BACKENDS"
  shows "database config = DNone \<and> orm config = ONone"
proof -
  from run
  have "fst (runPrompts_database user options (framework config) (backend config)) =
          Inr (database config, orm config)"
    by (rule runPrompts_Inr)
  with skip show ?thesis
    by (simp add: runPrompts_database_def io_defs split: if_splits)
qed

text \<open>
  All informational notices of a run with a Bun-only backend: the hint to install Bun when
  it is missing, the automatically selected ORM when the database is mongodb, and the notice
  about the forced package manager.
\<close>

lemma infoNotices_simps [simp]:
  "infoNotices [] = []"
  "infoNotices (ev # tr) = (if isLogInfo ev then ev # infoNotices tr else infoNotices tr)"
  "infoNotices (tr @ tr') = infoNotices tr @ infoNotices tr'"
  by (simp_all add: infoNotices_def)

lemma isLogInfo_simps [simp]:
  "isLogInfo (LogInfo s)"
  "\<not> isLogInfo (SelectPrompt m os)"
  "\<not> isLogInfo (TextPrompt m)"
  "\<not> isLogInfo (MultiselectPrompt m os)"
  "\<not> isLogInfo (Execa c as d)"
  "\<not> isLogInfo (LogWarn m)"
  "\<not> isLogInfo (Intro m)"
  "\<not> isLogInfo (Outro m)"
  by (simp_all add: isLogInfo_def)

lemma plain_sections_info:
  "infoNotices (snd (runPrompts_projectName user options)) = []"
  "infoNotices (snd (runPrompts_framework user options)) = []"
  "infoNotices (snd (runPrompts_backend user options fw)) = []"
  "infoNotices (snd (runPrompts_auth user options fw)) = []"
  "infoNotices (snd (runPrompts_styling user options)) = []"
  "infoNotices (snd (runPrompts_extras user)) = []"
  by (simp_all add: plain_sections or_prompt_select or_prompt_text multiselect_eq Let_def
      del: filter.simps split: option.splits answer.splits)

lemma database_info:
  assumes "fst (runPrompts_database user options fw b) = Inr (d, o')"
      and "b \<notin> set SKIP_DB_BACKENDS"
  shows "infoNotices (snd (runPrompts_database user options fw b)) =
           (if d = Mongodb then [LogInfo ''Using prisma for mongodb''] else [])"
  using assms
  by (cases d)
     (auto simp: runPrompts_database_def or_prompt_select io_defs Let_def
        simp del: filter.simps split: option.splits answer.splits if_splits)

lemma bun_only_backend_info_notices:
  assumes run: "runPrompts sys user options = (Inr config, tr)"
      and bun: "backend config \<in> set BUN_ONLY_BACKENDS"
  shows "infoNotices tr =
           (if execa_ok sys ''bun'' [''--version''] None then []
            else [LogInfo ''Run: curl -fsSL https://bun.sh/install | bash''])
           @ (if database config = Mongodb then [LogInfo ''Using prisma for mongodb''] else [])
           @ [LogInfo (overrideText Bun (backend config))]"
proof -
  from run obtain force0 force1 and extras' :: "string list"
    where f0: "fst (runPrompts_bunOnly sys (backend config)) = Inr force0"
      and f1: "fst (runPrompts_runtime user options (backend config) force0) =
                 Inr (force1, runtime config)"
      and db: "fst (runPrompts_database user options (framework config) (backend config)) =
                 Inr (database config, orm config)"
      and tr: "tr = Intro '' create-mrn-app '' #
              snd (runPrompts_projectName user options) @
              snd (runPrompts_framework user options) @
              snd (runPrompts_backend user options (framework config)) @
              snd (runPrompts_bunOnly sys (backend config)) @
              snd (runPrompts_runtime user options (backend config) force0) @
              snd (runPrompts_database user options (framework config) (backend config)) @
              snd (runPrompts_auth user options (framework config)) @
              snd (runPrompts_styling user options) @
              snd (runPrompts_packageManager user options (backend config) force1) @
              snd (runPrompts_extras user) @
              [Outro ''Configuration complete! Creating your project...'']"
    by (rule runPrompts_Inr)
  from bun have elysia: "backend config = Elysia"
    by (simp add: BUN_ONLY_BACKENDS_def)
  then have skip: "backend config \<notin> set SKIP_DB_BACKENDS"
    by (simp add: SKIP_DB_BACKENDS_def)
  from f0 bun have "force0 = Some Bun"
    by (simp add: bunOnly_eq)
  with f1 elysia have force1: "force1 = Some Bun"
    by (simp add: runtime_eq RUNTIME_SELECTABLE_BACKENDS_def)
  have rt: "snd (runPrompts_runtime user options (backend config) force0) = []"
    using elysia by (simp add: runtime_eq RUNTIME_SELECTABLE_BACKENDS_def)
  show ?thesis
    using bun
    by (simp add: tr plain_sections_info database_info [OF db skip] rt force1
        bunOnly_eq packageManager_eq)
qed

subsection \<open>The manifests written by \<^verbatim>\<open>generate\<close>\<close>

lemma snd_io_seq:
  "snd (io_seq m n) = (case fst m of Inl e \<Rightarrow> snd m | Inr u \<Rightarrow> snd m @ snd n)"
  by (cases m; cases "fst m") auto

lemma rootManifests_append [simp]:
  "rootManifests (tr @ tr') = rootManifests tr @ rootManifests tr'"
  by (simp add: rootManifests_def)

lemma packageJsons_append [simp]:
  "packageJsons (tr @ tr') = packageJsons tr @ packageJsons tr'"
  by (simp add: packageJsons_def)

lemma no_manifest_around:
  "rootManifests (snd (generate_confirm sys user config projectPath)) = []"
  "rootManifests (snd (generate_createDirectory isCurrentDir projectPath)) = []"
  "rootManifests (snd (generate_initGit sys projectPath)) = []"
  "packageJsons (snd (generate_confirm sys user config projectPath)) = []"
  "packageJsons (snd (generate_createDirectory isCurrentDir projectPath)) = []"
  "packageJsons (snd (generate_initGit sys projectPath)) = []"
  by (simp_all add: generate_confirm_def generate_createDirectory_def generate_initGit_def
      Let_def io_defs initGit_def rootManifests_def packageJsons_def
      split: answer.splits)

lemma generate_trace:
  assumes "fst (generate cat sys user config) \<noteq> Inl CANCELLED"
  shows "\<exists>projectPath name rest.
     snd (generate cat sys user config) =
       snd (generate_confirm sys user config projectPath) @
       snd (generate_createDirectory (projectName config = ''.'') projectPath) @
       snd (if requiresSeparatePackage (backend config)
            then generateMonorepoProject sys projectPath (config\<lparr>projectName := name\<rparr>)
            else generateSingleProject cat sys projectPath (config\<lparr>projectName := name\<rparr>)
                   (integratesWithFrontend (backend config))) @
       (if rest then snd (generate_initGit sys projectPath) @
          [ConsoleLog [],
           PrintSuccessMessage (config\<lparr>projectName := name\<rparr>) projectPath
             (projectName config = ''.'') (requiresSeparatePackage (backend config)),
           ConsoleLog []]
        else [])"
proof -
  let ?p = "if projectName config = ''.'' then cwd sys
            else path_resolve sys (cwd sys) (projectName config)"
  let ?n = "if projectName config = ''.'' then path_basename sys (cwd sys)
            else path_basename sys (projectName config)"
  let ?branch = "if requiresSeparatePackage (backend config)
            then generateMonorepoProject sys ?p (config\<lparr>projectName := ?n\<rparr>)
            else generateSingleProject cat sys ?p (config\<lparr>projectName := ?n\<rparr>)
                   (integratesWithFrontend (backend config))"
  from assms have c: "fst (generate_confirm sys user config ?p) = Inr ()"
    by (simp add: fst_generate fst_generate_confirm Let_def split: if_splits)
  have "snd (generate cat sys user config) =
       snd (generate_confirm sys user config ?p) @
       snd (generate_createDirectory (projectName config = ''.'') ?p) @
       snd ?branch @
       (if fst ?branch = Inr () then snd (generate_initGit sys ?p) @
          [ConsoleLog [],
           PrintSuccessMessage (config\<lparr>projectName := ?n\<rparr>) ?p
             (projectName config = ''.'') (requiresSeparatePackage (backend config)),
           ConsoleLog []]
        else [])"
    unfolding generate_def Let_def
    by (simp add: snd_io_seq c fst_generate_createDirectory fst_generate_initGit emit_def
        split: sum.splits)
  then show ?thesis by blast
qed

text \<open>
  When the backend requires a separate package and the user does not cancel,
  \<^verbatim>\<open>generate\<close> writes one workspace-root manifest, that of the monorepo branch, and no other
  manifest of its own.
\<close>

lemma generate_separate_manifest:
  assumes "requiresSeparatePackage (backend config)"
      and "fst (generate cat sys user config) \<noteq> Inl CANCELLED"
  shows "\<exists>name. rootManifests (snd (generate cat sys user config)) =
           [rootPackageJson (config\<lparr>projectName := name\<rparr>)]"
proof -
  from generate_trace [OF assms(2)] obtain projectPath name rest where
    "snd (generate cat sys user config) =
       snd (generate_confirm sys user config projectPath) @
       snd (generate_createDirectory (projectName config = ''.'') projectPath) @
       snd (if requiresSeparatePackage (backend config)
            then generateMonorepoProject sys projectPath (config\<lparr>projectName := name\<rparr>)
            else generateSingleProject cat sys projectPath (config\<lparr>projectName := name\<rparr>)
                   (integratesWithFrontend (backend config))) @
       (if rest then snd (generate_initGit sys projectPath) @
          [ConsoleLog [],
           PrintSuccessMessage (config\<lparr>projectName := name\<rparr>) projectPath
             (projectName config = ''.'') (requiresSeparatePackage (backend config)),
           ConsoleLog []]
        else [])"
    by blast
  then have "rootManifests (snd (generate cat sys user config)) =
      [rootPackageJson (config\<lparr>projectName := name\<rparr>)]"
    using assms(1)
    by (simp add: no_manifest_around monorepo_root_manifest)
       (simp add: rootManifests_def)
  then show ?thesis by blast
qed

text \<open>
  When the backend integrates with the frontend and the user does not cancel, \<^verbatim>\<open>generate\<close>
  writes back one manifest, the merge of the single-package branch.
\<close>

lemma generate_integrated_manifest:
  assumes "integratesWithFrontend (backend config)"
      and "getBackendGenerator (backend config) = Some g"
      and "fst (generate cat sys user config) \<noteq> Inl CANCELLED"
  shows "\<exists>name path. packageJsons (snd (generate cat sys user config)) =
           [generateSingleProject_merge cat g (config\<lparr>projectName := name\<rparr>)
              (readJSON sys path)]"
proof -
  have sep: "\<not> requiresSeparatePackage (backend config)"
    using assms(1) by (cases "backend config") (simp_all add: layout_defs)
  from generate_trace [OF assms(3)] obtain projectPath name rest where
    "snd (generate cat sys user config) =
       snd (generate_confirm sys user config projectPath) @
       snd (generate_createDirectory (projectName config = ''.'') projectPath) @
       snd (if requiresSeparatePackage (backend config)
            then generateMonorepoProject sys projectPath (config\<lparr>projectName := name\<rparr>)
            else generateSingleProject cat sys projectPath (config\<lparr>projectName := name\<rparr>)
                   (integratesWithFrontend (backend config))) @
       (if rest then snd (generate_initGit sys projectPath) @
          [ConsoleLog [],
           PrintSuccessMessage (config\<lparr>projectName := name\<rparr>) projectPath
             (projectName config = ''.'') (requiresSeparatePackage (backend config)),
           ConsoleLog []]
        else [])"
    by blast
  moreover have
    "packageJsons (snd (generateSingleProject cat sys projectPath
        (config\<lparr>projectName := name\<rparr>) True)) =
       [generateSingleProject_merge cat g (config\<lparr>projectName := name\<rparr>)
          (readJSON sys (path_join sys [projectPath, ''package.json'']))]"
    by (rule single_project_manifest) (simp add: assms(2))
  ultimately have "packageJsons (snd (generate cat sys user config)) =
      [generateSingleProject_merge cat g (config\<lparr>projectName := name\<rparr>)
         (readJSON sys (path_join sys [projectPath, ''package.json'']))]"
    using assms(1) sep
    by (simp add: no_manifest_around) (simp add: packageJsons_def)
  then show ?thesis by blast
qed

end
